theory Spec2Isabelle
  imports Complex_Main "HOL-Library.Sublist" "HOL-Library.AList"
begin

section \<open>Errors as values\<close>

text \<open>
  What the code can catch: an error of the platform (the code of the failed system call,
  the call and its path), the SyntaxError of \<^verbatim>\<open>JSON.parse\<close>, a TypeError (a property of
  null, a spread of something that is not iterable), and the errors the code creates
  itself with \<^verbatim>\<open>new Error(...)\<close>.
\<close>

datatype fs_op = Access | AccessRW | Readdir | Stat | Rimraf | Mkdir | Cp | CopyFile
  | WriteFile | ReadFile | AppendFile

datatype errno = ENOENT | EACCES | ENOTDIR | EISDIR | EEXIST

datatype error =
    FsError errno fs_op string
  | JsonSyntaxError
  | JsTypeError
  | InsufficientPermissions string
  | ManifestBackupFailed string
  | BackupNotFound string

section \<open>Exclusion matcher (lib/config-manager.js, class ConfigManager)\<close>

subsection \<open>The three global string replacements of matchesPattern\<close>

text \<open>
  JavaScript strings are sequences of code units; the model uses \<^typ>\<open>string\<close>, that is
  code units below 256. The backslash is written \<open>CHR 0x5C\<close>.
\<close>

abbreviation bslash :: char where
  "bslash \<equiv> CHR 0x5C"

text \<open>The character class \<^verbatim>\<open>[.+^${}()|\\]\<close> of the escaping step.\<close>

definition regex_special :: "char \<Rightarrow> bool" where
  "regex_special c \<longleftrightarrow> c \<in> set (''.+^${}()|'' @ [bslash])"

text \<open>\<^verbatim>\<open>replace(/[.+^${}()|\\]/g, '\\$&')\<close>: every special character gets a backslash in front.\<close>

definition escape_specials :: "string \<Rightarrow> string" where
  "escape_specials s = concat (map (\<lambda>c. if regex_special c then [bslash, c] else [c]) s)"

text \<open>\<^verbatim>\<open>replace(/\*\*/g, '.*')\<close>: leftmost, non-overlapping pairs of stars.\<close>

fun replace_double_star :: "string \<Rightarrow> string" where
  "replace_double_star (a # b # s) =
     (if a = CHR ''*'' \<and> b = CHR ''*'' then ''.*'' @ replace_double_star s
      else a # replace_double_star (b # s))"
| "replace_double_star s = s"

text \<open>\<^verbatim>\<open>replace(/\*/g, '[^/]*')\<close>, run on the result of the previous step.\<close>

definition replace_star :: "string \<Rightarrow> string" where
  "replace_star s = concat (map (\<lambda>c. if c = CHR ''*'' then ''[^/]*'' else [c]) s)"

text \<open>\<^verbatim>\<open>replace(/\?/g, '[^/]')\<close>.\<close>

definition replace_question :: "string \<Rightarrow> string" where
  "replace_question s = concat (map (\<lambda>c. if c = CHR ''?'' then ''[^/]'' else [c]) s)"

text \<open>The value of \<^verbatim>\<open>regexPattern\<close> when it reaches \<^verbatim>\<open>new RegExp\<close>.\<close>

definition glob_to_regex :: "string \<Rightarrow> string" where
  "glob_to_regex pattern =
     replace_question (replace_star (replace_double_star (escape_specials pattern)))"

subsection \<open>The fragment of ECMAScript regular expressions that matchesPattern can build\<close>

text \<open>
  \<^verbatim>\<open>new RegExp(regexPattern, 'i')\<close> and \<^verbatim>\<open>regex.test(filePath)\<close> are built into the
  language. After the replacements above the pattern text holds escaped characters,
  the dot, bracketed classes (with ranges, and negated when the class was generated), the
  star behind an atom, and ordinary characters; this fragment is modelled after the
  ECMAScript grammar (Annex B, no unicode flag). \<open>None\<close> stands for the SyntaxError that
  \<^verbatim>\<open>new RegExp\<close> throws (unterminated class, range out of order, nothing to repeat), and
  for syntax outside the fragment. The replacements do not produce such syntax: every
  backslash they leave stands before one of the escaped characters, every star stands
  behind a closing bracket, and no question mark is left.
\<close>

datatype tok = Plain char | Esc char

fun tok_char :: "tok \<Rightarrow> char" where
  "tok_char (Plain c) = c"
| "tok_char (Esc c) = c"

fun tokenize :: "string \<Rightarrow> tok list option" where
  "tokenize [] = Some []"
| "tokenize [c] = (if c = bslash then None else Some [Plain c])"
| "tokenize (c # d # s) =
     (if c = bslash
      then (if regex_special d then map_option ((#) (Esc d)) (tokenize s) else None)
      else map_option ((#) (Plain c)) (tokenize (d # s)))"

datatype class_item = CChar char | CRange char char

datatype charset = Literal char | AnyChar | CharClass bool "class_item list"

datatype piece = One charset | Many charset

text \<open>
  ClassRanges up to the closing bracket: an atom, a dash and an atom that is not the closing
  bracket form a range, which must not run backwards; a dash elsewhere is a member.
\<close>

fun parse_class :: "tok list \<Rightarrow> (class_item list \<times> tok list) option" where
  "parse_class [] = None"
| "parse_class (a # r) =
     (if a = Plain (CHR '']'') then Some ([], r)
      else (case r of
          d # b # r' \<Rightarrow>
            (if d = Plain (CHR ''-'') \<and> b \<noteq> Plain (CHR '']'')
             then (if (of_char (tok_char b) :: nat) < of_char (tok_char a) then None
                   else map_option (apfst ((#) (CRange (tok_char a) (tok_char b))))
                          (parse_class r'))
             else map_option (apfst ((#) (CChar (tok_char a)))) (parse_class r))
        | _ \<Rightarrow> map_option (apfst ((#) (CChar (tok_char a)))) (parse_class r)))"

lemma map_option_apfst_SomeD:
  "map_option (apfst f) x = Some (a, b) \<Longrightarrow> \<exists>a'. x = Some (a', b)"
  by (cases x) auto

lemma parse_class_shorter:
  "parse_class ts = Some (items, rest) \<Longrightarrow> length rest < length ts"
proof (induction ts arbitrary: items rest rule: parse_class.induct)
  case 1
  then show ?case by simp
next
  case (2 a r)
  note unfold = parse_class.simps(2)[of a r]
  show ?case
  proof (cases "a = Plain (CHR '']'')")
    case True
    with "2.prems" show ?thesis by simp
  next
    case nb: False
    show ?thesis
    proof (cases r)
      case Nil
      with nb "2.prems" show ?thesis by simp
    next
      case c1: (Cons d r1)
      show ?thesis
      proof (cases r1)
        case Nil
        with nb c1 "2.prems" unfold obtain items' where "parse_class r = Some (items', rest)"
          by (auto simp del: parse_class.simps dest: map_option_apfst_SomeD map_option_apfst_SomeD[OF sym])
        from "2.IH"(2)[OF nb c1 Nil this] show ?thesis by simp
      next
        case c2: (Cons b r')
        show ?thesis
        proof (cases "d = Plain (CHR ''-'') \<and> b \<noteq> Plain (CHR '']'')")
          case True
          with nb c1 c2 "2.prems" unfold
          have nlt: "\<not> (of_char (tok_char b) :: nat) < of_char (tok_char a)"
            by (auto simp del: parse_class.simps split: if_splits)
          with True nb c1 c2 "2.prems" unfold obtain items'
            where "parse_class r' = Some (items', rest)"
            by (auto simp del: parse_class.simps dest: map_option_apfst_SomeD map_option_apfst_SomeD[OF sym])
          from "2.IH"(3)[OF nb c1 c2 True nlt this] c1 c2 show ?thesis by simp
        next
          case False
          with nb c1 c2 "2.prems" unfold obtain items'
            where "parse_class r = Some (items', rest)"
            by (auto simp del: parse_class.simps dest: map_option_apfst_SomeD map_option_apfst_SomeD[OF sym])
          from "2.IH"(4)[OF nb c1 c2 False this] show ?thesis by simp
        qed
      qed
    qed
  qed
qed

definition quantifier_or_unsupported :: "char \<Rightarrow> bool" where
  "quantifier_or_unsupported c \<longleftrightarrow> c \<in> set ''*+?(){|^$''"

fun with_star :: "charset \<Rightarrow> tok list \<Rightarrow> piece \<times> tok list" where
  "with_star cs (Plain c # r) = (if c = CHR ''*'' then (Many cs, r) else (One cs, Plain c # r))"
| "with_star cs r = (One cs, r)"

lemma with_star_length: "length (snd (with_star cs r)) \<le> length r"
  by (cases "(cs, r)" rule: with_star.cases) auto

text \<open>One atom, with the class read by \<open>parse_class\<close>; \<open>None\<close> as described above.\<close>

fun parse_atom :: "tok list \<Rightarrow> (charset \<times> tok list) option" where
  "parse_atom [] = None"
| "parse_atom (Esc c # r) = Some (Literal c, r)"
| "parse_atom (Plain c # r) =
     (if c = CHR ''.'' then Some (AnyChar, r)
      else if c = CHR ''[''
        then (case r of
            Plain x # r' \<Rightarrow>
              (if x = CHR ''^''
               then map_option (apfst (CharClass True)) (parse_class r')
               else map_option (apfst (CharClass False)) (parse_class r))
          | _ \<Rightarrow> map_option (apfst (CharClass False)) (parse_class r))
      else if quantifier_or_unsupported c then None
      else Some (Literal c, r))"

lemma parse_atom_shorter:
  assumes "parse_atom ts = Some (cs, rest)"
  shows "length rest < length ts"
proof (cases ts rule: parse_atom.cases)
  case 1
  with assms show ?thesis by simp
next
  case (2 c r)
  with assms show ?thesis by auto
next
  case (3 c r)
  with assms show ?thesis
    by (auto simp del: parse_class.simps split: if_splits list.splits tok.splits
             dest!: parse_class_shorter)
qed

function parse_pieces :: "tok list \<Rightarrow> piece list option" where
  "parse_pieces ts =
     (if ts = [] then Some []
      else (case parse_atom ts of
          None \<Rightarrow> None
        | Some (cs, r) \<Rightarrow>
            map_option ((#) (fst (with_star cs r))) (parse_pieces (snd (with_star cs r)))))"
  by pat_completeness auto
termination
proof (relation "measure length")
  show "wf (measure length)" by simp
next
  fix ts :: "tok list" and x2 x y
  assume "parse_atom ts = Some x2" and "(x, y) = x2"
  then have "length y < length ts"
    using parse_atom_shorter[of ts x y] by simp
  moreover have "length (snd (with_star x y)) \<le> length y"
    by (rule with_star_length)
  ultimately show "(snd (with_star x y), ts) \<in> measure length" by simp
qed

text \<open>\<^verbatim>\<open>new RegExp(source, 'i')\<close>.\<close>

definition new_RegExp :: "string \<Rightarrow> piece list option" where
  "new_RegExp source = (case tokenize source of None \<Rightarrow> None | Some ts \<Rightarrow> parse_pieces ts)"

text \<open>
  Canonicalize of the ignore-case flag: the upper-case mapping of a single code unit. Below
  256 this moves a..z and the accented lower-case letters 0xE0..0xFE (without the division
  sign 0xF7) down by 32; the sharp s, the micro sign and y with diaeresis have no upper
  case below 256 that another code unit below 256 shares.
\<close>

definition canonicalize :: "char \<Rightarrow> char" where
  "canonicalize c =
     (let n = (of_char c :: nat)
      in if (97 \<le> n \<and> n \<le> 122) \<or> (224 \<le> n \<and> n \<le> 254 \<and> n \<noteq> 247)
         then char_of (n - 32) else c)"

fun item_matches :: "class_item \<Rightarrow> char \<Rightarrow> bool" where
  "item_matches (CChar a) c = (canonicalize a = canonicalize c)"
| "item_matches (CRange a b) c =
     list_ex (\<lambda>n. canonicalize (char_of n) = canonicalize c) [of_char a ..< Suc (of_char b)]"

text \<open>The dot matches everything but a line terminator.\<close>

fun charset_matches :: "charset \<Rightarrow> char \<Rightarrow> bool" where
  "charset_matches (Literal a) c = (canonicalize a = canonicalize c)"
| "charset_matches AnyChar c = (c \<noteq> CHR 0x0A \<and> c \<noteq> CHR 0x0D)"
| "charset_matches (CharClass negated items) c =
     (list_ex (\<lambda>i. item_matches i c) items \<noteq> negated)"

text \<open>Does the pattern match a prefix of the input? (Backtracking over the star.)\<close>

fun match_here :: "piece list \<Rightarrow> string \<Rightarrow> bool" where
  "match_here [] s = True"
| "match_here (One cs # r) [] = False"
| "match_here (One cs # r) (c # s) = (charset_matches cs c \<and> match_here r s)"
| "match_here (Many cs # r) [] = match_here r []"
| "match_here (Many cs # r) (c # s) =
     ((charset_matches cs c \<and> match_here (Many cs # r) s) \<or> match_here r (c # s))"

text \<open>\<^verbatim>\<open>regex.test(s)\<close> without the global flag: a match may start anywhere.\<close>

definition regex_test :: "piece list \<Rightarrow> string \<Rightarrow> bool" where
  "regex_test re s = list_ex (match_here re) (suffixes s)"

subsection \<open>matchesPattern and shouldExcludePath\<close>

text \<open>The catch branch warns on the console and answers false.\<close>

definition matchesPattern :: "string \<Rightarrow> string \<Rightarrow> bool" where
  "matchesPattern filePath pattern =
     (case new_RegExp (glob_to_regex pattern) of
        None \<Rightarrow> False
      | Some regex \<Rightarrow> regex_test regex filePath)"

text \<open>
  The configuration object as far as shouldExcludePath reads it: \<^verbatim>\<open>config\<close> may be null,
  \<^verbatim>\<open>excludePatterns\<close>, its \<^verbatim>\<open>global\<close> list and its \<^verbatim>\<open>perCategory\<close> object may be
  missing. An empty array is truthy, an empty category string is falsy. \<^verbatim>\<open>perCategory\<close>
  is a plain object read from JSON: the map holds its own properties (arrays of
  patterns), and a category that names no own property but a member inherited from
  \<^verbatim>\<open>Object.prototype\<close> reads as that member, which is truthy and not iterable, so that
  the spread into \<^verbatim>\<open>patterns.push\<close> throws a TypeError before any pattern is tried.
\<close>

record exclude_patterns =
  global :: "string list option"
  perCategory :: "(string \<rightharpoonup> string list) option"

record config =
  excludePatterns :: "exclude_patterns option"

definition object_prototype_members :: "string list" where
  "object_prototype_members =
     [''constructor'', ''__defineGetter__'', ''__defineSetter__'', ''hasOwnProperty'',
      ''__lookupGetter__'', ''__lookupSetter__'', ''isPrototypeOf'', ''propertyIsEnumerable'',
      ''toString'', ''valueOf'', ''__proto__'', ''toLocaleString'']"

text \<open>The patterns of the category, or the TypeError of the spread.\<close>

definition category_patterns :: "exclude_patterns \<Rightarrow> string option \<Rightarrow> error + string list" where
  "category_patterns ep category =
     (case category of
        None \<Rightarrow> Inr []
      | Some cat \<Rightarrow>
          (if cat = [] then Inr []
           else (case perCategory ep of
                   None \<Rightarrow> Inr []
                 | Some pc \<Rightarrow>
                     (case pc cat of
                        Some ps \<Rightarrow> Inr ps
                      | None \<Rightarrow>
                          (if List.member object_prototype_members cat then Inl JsTypeError
                           else Inr [])))))"

definition shouldExcludePath :: "config option \<Rightarrow> string \<Rightarrow> string option \<Rightarrow> error + bool" where
  "shouldExcludePath cfg filePath category =
     (case cfg of
        None \<Rightarrow> Inr False
      | Some c \<Rightarrow>
          (case excludePatterns c of
             None \<Rightarrow> Inr False
           | Some ep \<Rightarrow>
               (case category_patterns ep category of
                  Inl err \<Rightarrow> Inl err
                | Inr ps \<Rightarrow>
                    Inr (list_ex (matchesPattern filePath)
                           ((case global ep of None \<Rightarrow> [] | Some g \<Rightarrow> g) @ ps)))))"

section \<open>The platform: a file system whose calls can fail\<close>

text \<open>
  The file system is a finite table from absolute paths to the trees found there, and the
  lines appended to log files. A file has a size and, for \<^verbatim>\<open>JSON.parse\<close>, a view of its
  text: not JSON, the JSON value null, a backup manifest, an object whose \<^verbatim>\<open>type\<close> is
  \<^verbatim>\<open>'manifest'\<close> but whose \<^verbatim>\<open>files\<close> cannot be iterated, or another JSON value. Every
  call of the \<^verbatim>\<open>fs\<close> module and of \<^verbatim>\<open>rimraf\<close> either has its effect or throws; the table
  \<open>faults\<close> lists the calls (operation and path) that throw for a reason the tree does not
  show (permissions, locks, a full disk). A call that throws leaves the file system as it
  was. Paths are normalised POSIX paths, so that \<^verbatim>\<open>path.join\<close> puts one separator
  between its arguments. Sizes are natural numbers (the source adds them as doubles,
  exactly up to \<open>2^53\<close>).

  The log file is written by \<^verbatim>\<open>fs.appendFile\<close> calls that the code does not await. The
  model keeps the appended lines, with the path each went to, in the order of the calls,
  apart from the table of trees: it takes the log file to lie outside every cleanup
  target and outside the backup directory, as the default \<^verbatim>\<open>~/.ultra-cleaner.log\<close> does.
\<close>

datatype level = ERROR | WARN | INFO | DEBUG | SUCCESS

record log_entry =
  level :: level
  message :: string

record manifest_file =
  mf_name :: string
  mf_path :: string
  mf_isDirectory :: bool
  mf_size :: nat

datatype content = Opaque | JsonNull | Manifest "manifest_file list" | BrokenManifest | OtherJson

datatype node = File nat content | Dir "(string \<times> node) list"

record world =
  roots :: "(string \<times> node) list"
  faults :: "(fs_op \<times> string) list"
  dir_stat_size :: nat
  appended :: "(string \<times> log_entry) list"

record stat_result =
  isDirectory :: bool
  st_size :: nat

definition path_join :: "string \<Rightarrow> string \<Rightarrow> string" where
  "path_join dir name = dir @ ''/'' @ name"

definition fails :: "world \<Rightarrow> fs_op \<Rightarrow> string \<Rightarrow> bool" where
  "fails w fop p = List.member (faults w) (fop, p)"

definition fs_access :: "world \<Rightarrow> string \<Rightarrow> error + unit" where
  "fs_access w p =
     (if fails w Access p then Inl (FsError EACCES Access p)
      else (case map_of (roots w) p of None \<Rightarrow> Inl (FsError ENOENT Access p) | Some n \<Rightarrow> Inr ()))"

definition fs_access_rw :: "world \<Rightarrow> string \<Rightarrow> error + unit" where
  "fs_access_rw w p =
     (if fails w AccessRW p then Inl (FsError EACCES AccessRW p)
      else (case map_of (roots w) p of
              None \<Rightarrow> Inl (FsError ENOENT AccessRW p)
            | Some n \<Rightarrow> Inr ()))"

text \<open>\<^verbatim>\<open>fs.readdir(p, {withFileTypes: true})\<close> and \<^verbatim>\<open>fs.stat\<close> on what is found at \<open>p\<close>.\<close>

fun readdir_node :: "world \<Rightarrow> string \<Rightarrow> node option \<Rightarrow> error + (string \<times> node) list" where
  "readdir_node w p None = Inl (FsError (if fails w Readdir p then EACCES else ENOENT) Readdir p)"
| "readdir_node w p (Some (File sz c)) =
     Inl (FsError (if fails w Readdir p then EACCES else ENOTDIR) Readdir p)"
| "readdir_node w p (Some (Dir items)) =
     (if fails w Readdir p then Inl (FsError EACCES Readdir p) else Inr items)"

fun stat_node :: "world \<Rightarrow> string \<Rightarrow> node option \<Rightarrow> error + stat_result" where
  "stat_node w p None = Inl (FsError (if fails w Stat p then EACCES else ENOENT) Stat p)"
| "stat_node w p (Some (File sz c)) =
     (if fails w Stat p then Inl (FsError EACCES Stat p)
      else Inr \<lparr>isDirectory = False, st_size = sz\<rparr>)"
| "stat_node w p (Some (Dir items)) =
     (if fails w Stat p then Inl (FsError EACCES Stat p)
      else Inr \<lparr>isDirectory = True, st_size = dir_stat_size w\<rparr>)"

definition fs_readdir :: "world \<Rightarrow> string \<Rightarrow> error + (string \<times> node) list" where
  "fs_readdir w p = readdir_node w p (map_of (roots w) p)"

definition fs_stat :: "world \<Rightarrow> string \<Rightarrow> error + stat_result" where
  "fs_stat w p = stat_node w p (map_of (roots w) p)"

text \<open>\<^verbatim>\<open>rimraf(p)\<close>: removes what is at \<open>p\<close>; nothing there is not an error.\<close>

definition rimraf :: "world \<Rightarrow> string \<Rightarrow> error + world" where
  "rimraf w p =
     (if fails w Rimraf p then Inl (FsError EACCES Rimraf p)
      else Inr (w\<lparr>roots := AList.delete p (roots w)\<rparr>))"

text \<open>
  \<^verbatim>\<open>fs.mkdir(p, {recursive: true})\<close>: an existing directory is left alone. A path that is
  not in the table becomes an entry of the table holding an empty directory.
\<close>

definition fs_mkdir :: "world \<Rightarrow> string \<Rightarrow> error + world" where
  "fs_mkdir w p =
     (if fails w Mkdir p then Inl (FsError EACCES Mkdir p)
      else (case map_of (roots w) p of
              None \<Rightarrow> Inr (w\<lparr>roots := AList.update p (Dir []) (roots w)\<rparr>)
            | Some (Dir items) \<Rightarrow> Inr w
            | Some (File sz c) \<Rightarrow> Inl (FsError EEXIST Mkdir p)))"

text \<open>
  \<^verbatim>\<open>fs.cp(src, dst, {recursive: true})\<close>: the destination holds a copy of the source
  afterwards (exact when the destination was missing or empty, as in the calls here).
\<close>

definition fs_cp :: "world \<Rightarrow> string \<Rightarrow> string \<Rightarrow> error + world" where
  "fs_cp w src dst =
     (if fails w Cp src then Inl (FsError EACCES Cp src)
      else (case map_of (roots w) src of
              None \<Rightarrow> Inl (FsError ENOENT Cp src)
            | Some n \<Rightarrow> Inr (w\<lparr>roots := AList.update dst n (roots w)\<rparr>)))"

definition fs_copyFile :: "world \<Rightarrow> string \<Rightarrow> string \<Rightarrow> error + world" where
  "fs_copyFile w src dst =
     (if fails w CopyFile src then Inl (FsError EACCES CopyFile src)
      else (case map_of (roots w) src of
              None \<Rightarrow> Inl (FsError ENOENT CopyFile src)
            | Some (Dir items) \<Rightarrow> Inl (FsError EISDIR CopyFile src)
            | Some (File sz c) \<Rightarrow> Inr (w\<lparr>roots := AList.update dst (File sz c) (roots w)\<rparr>)))"

definition fs_writeFile :: "world \<Rightarrow> string \<Rightarrow> nat \<Rightarrow> content \<Rightarrow> error + world" where
  "fs_writeFile w p sz c =
     (if fails w WriteFile p then Inl (FsError EACCES WriteFile p)
      else (case map_of (roots w) p of
              Some (Dir items) \<Rightarrow> Inl (FsError EISDIR WriteFile p)
            | _ \<Rightarrow> Inr (w\<lparr>roots := AList.update p (File sz c) (roots w)\<rparr>)))"


text \<open>\<^verbatim>\<open>fs.appendFile(p, line)\<close> for a line of the log.\<close>

definition fs_appendFile :: "world \<Rightarrow> string \<Rightarrow> log_entry \<Rightarrow> error + world" where
  "fs_appendFile w p entry =
     (if fails w AppendFile p then Inl (FsError EACCES AppendFile p)
      else Inr (w\<lparr>appended := appended w @ [(p, entry)]\<rparr>))"

text \<open>
  What the run reads from outside: \<^verbatim>\<open>Date.now()\<close>, the text of a fresh backup
  identifier (time and \<^verbatim>\<open>Math.random()\<close>), \<^verbatim>\<open>os.homedir()\<close>, the length of the text
  that \<^verbatim>\<open>JSON.stringify\<close> gives for a manifest, and the wording of the messages of the
  errors that the platform and the language throw.
\<close>

record env =
  now :: nat
  fresh_id :: string
  homedir :: string
  json_length :: "manifest_file list \<Rightarrow> nat"
  platform_message :: "error \<Rightarrow> string"

text \<open>\<^verbatim>\<open>error.message\<close>: the code's own texts, and the platform's wording for the rest.\<close>

fun error_message :: "env \<Rightarrow> error \<Rightarrow> string" where
  "error_message e (InsufficientPermissions p) = ''Insufficient permissions for: '' @ p"
| "error_message e (ManifestBackupFailed m) = ''Failed to create manifest backup: '' @ m"
| "error_message e (BackupNotFound i) = ''Backup not found: '' @ i"
| "error_message e err = platform_message e err"

section \<open>Size accounting (lib/cleaner.js, getFolderSize)\<close>

text \<open>
  \<^verbatim>\<open>totalSize\<close> and \<^verbatim>\<open>fileCount\<close> are variables of getFolderSize that every call of
  the inner function calculateRecursive shares, so the model threads them through the
  walk as an accumulator. A call returns \<^verbatim>\<open>{size: totalSize, count: fileCount}\<close>, the
  accumulator at that moment; the caller then adds the returned numbers to the shared
  variables. An error of readdir or stat is caught and skipped.
\<close>

record folder_size =
  size' :: nat
  count' :: nat

fun calculateRecursive :: "world \<Rightarrow> string \<Rightarrow> node option \<Rightarrow> folder_size \<Rightarrow> folder_size"
  and for_items :: "world \<Rightarrow> string \<Rightarrow> (string \<times> node) list \<Rightarrow> folder_size \<Rightarrow> folder_size"
where
  "calculateRecursive w currentPath None acc = acc"
| "calculateRecursive w currentPath (Some (File sz c)) acc = acc"
| "calculateRecursive w currentPath (Some (Dir items)) acc =
     (if fails w Readdir currentPath then acc else for_items w currentPath items acc)"
| "for_items w currentPath [] acc = acc"
| "for_items w currentPath ((name, n) # rest) acc =
     (let fullPath = path_join currentPath name
      in (case n of
            Dir sub \<Rightarrow>
              (let subResult = calculateRecursive w fullPath (Some n) acc
               in for_items w currentPath rest
                    \<lparr>size' = size' subResult + size' subResult,
                     count' = count' subResult + count' subResult\<rparr>)
          | File sz c \<Rightarrow>
              (case stat_node w fullPath (Some n) of
                 Inl err \<Rightarrow> for_items w currentPath rest acc
               | Inr st \<Rightarrow>
                   for_items w currentPath rest
                     \<lparr>size' = size' acc + st_size st, count' = count' acc + 1\<rparr>)))"

definition getFolderSize :: "world \<Rightarrow> string \<Rightarrow> folder_size" where
  "getFolderSize w folderPath =
     calculateRecursive w folderPath (map_of (roots w) folderPath) \<lparr>size' = 0, count' = 0\<rparr>"

section \<open>Security manager (lib/config-manager.js, class SecurityManager)\<close>

text \<open>
  The operation log keeps level and message of each entry (time stamp, context object and
  session number are left out). \<^verbatim>\<open>backups\<close> is a Map: insertion order kept, a key set
  again keeps its place. The methods change the file system and the manager, so they
  pass on the pair of both.
\<close>

record backup_record =
  backup_id :: string
  originalPath :: string
  backupPath :: string
  operation :: string
  timestamp :: nat
  backup_size :: nat

record security_manager =
  sm_enableBackup :: bool
  sm_enableLogging :: bool
  backupLocation :: string
  logLocation :: string
  operationLog :: "log_entry list"
  backups :: "(string \<times> backup_record) list"

type_synonym sec_state = "world \<times> security_manager"

text \<open>logToFile: an error of the append is swallowed.\<close>

definition logToFile :: "world \<Rightarrow> security_manager \<Rightarrow> log_entry \<Rightarrow> world" where
  "logToFile w sm entry =
     (case fs_appendFile w (logLocation sm) entry of Inl err \<Rightarrow> w | Inr w' \<Rightarrow> w')"

text \<open>
  \<^verbatim>\<open>log(level, message, context)\<close>: pushes the entry on the operation log, prints it, and
  with logging enabled has it appended to the log file.
\<close>

definition sm_log :: "level \<Rightarrow> string \<Rightarrow> sec_state \<Rightarrow> sec_state" where
  "sm_log lv msg st =
     (let entry = \<lparr>level = lv, message = msg\<rparr>;
          sm = (snd st)\<lparr>operationLog := operationLog (snd st) @ [entry]\<rparr>
      in (if sm_enableLogging (snd st) then logToFile (fst st) (snd st) entry else fst st, sm))"

definition startsWith :: "string \<Rightarrow> string \<Rightarrow> bool" where
  "startsWith s t = prefix t s"

definition includes' :: "string \<Rightarrow> string \<Rightarrow> bool" where
  "includes' s t = list_ex (prefix t) (suffixes s)"

definition systemPaths :: "env \<Rightarrow> string list" where
  "systemPaths e =
     [path_join (homedir e) ''AppData'',
      ''C:'' @ [bslash] @ ''Windows'',
      ''C:'' @ [bslash] @ ''Program Files'',
      ''/System'', ''/usr'', ''/etc'']"

definition validateOperation ::
  "env \<Rightarrow> sec_state \<Rightarrow> string \<Rightarrow> string \<Rightarrow> bool \<times> sec_state" where
  "validateOperation e st targetPath op_name =
     (case fs_access (fst st) targetPath of
        Inl err \<Rightarrow>
          (False, sm_log ERROR (''Operation validation failed: '' @ error_message e err) st)
      | Inr u \<Rightarrow>
          (case fs_access_rw (fst st) targetPath of
             Inl err \<Rightarrow>
               (False, sm_log ERROR (''Operation validation failed: '' @
                  error_message e (InsufficientPermissions targetPath)) st)
           | Inr u' \<Rightarrow>
               (let warned =
                      fold (\<lambda>systemPath s.
                              if includes' targetPath systemPath \<and>
                                 \<not> startsWith targetPath (homedir e)
                              then sm_log WARN (''Operating on system path: '' @ targetPath) s
                              else s)
                           (systemPaths e) st
                in (True, sm_log INFO (''Operation validated: '' @ op_name) warned))))"

fun is_dir :: "node \<Rightarrow> bool" where
  "is_dir (Dir items) = True"
| "is_dir (File sz c) = False"

fun file_size :: "node \<Rightarrow> nat" where
  "file_size (File sz c) = sz"
| "file_size (Dir items) = 0"

text \<open>The loop of createManifestBackup: one stat per entry, the first error ends it.\<close>

fun manifest_entries :: "world \<Rightarrow> string \<Rightarrow> (string \<times> node) list \<Rightarrow> error + manifest_file list" where
  "manifest_entries w sourcePath [] = Inr []"
| "manifest_entries w sourcePath ((name, n) # rest) =
     (case stat_node w (path_join sourcePath name) (Some n) of
        Inl err \<Rightarrow> Inl err
      | Inr st \<Rightarrow>
          (case manifest_entries w sourcePath rest of
             Inl err \<Rightarrow> Inl err
           | Inr files \<Rightarrow>
               Inr (\<lparr>mf_name = name, mf_path = path_join sourcePath name,
                     mf_isDirectory = is_dir n, mf_size = st_size st\<rparr> # files)))"

definition createManifestBackup :: "env \<Rightarrow> world \<Rightarrow> string \<Rightarrow> string \<Rightarrow> error + world" where
  "createManifestBackup e w sourcePath bPath =
     (case fs_readdir w sourcePath of
        Inl err \<Rightarrow> Inl (ManifestBackupFailed (error_message e err))
      | Inr items \<Rightarrow>
          (case manifest_entries w sourcePath items of
             Inl err \<Rightarrow> Inl (ManifestBackupFailed (error_message e err))
           | Inr files \<Rightarrow>
               (case fs_writeFile w bPath (json_length e files) (Manifest files) of
                  Inl err \<Rightarrow> Inl (ManifestBackupFailed (error_message e err))
                | Inr w' \<Rightarrow> Inr w')))"

definition createDirectoryBackup :: "env \<Rightarrow> world \<Rightarrow> string \<Rightarrow> string \<Rightarrow> error + world" where
  "createDirectoryBackup e w sourcePath bPath =
     (case fs_cp w sourcePath bPath of
        Inl err \<Rightarrow> createManifestBackup e w sourcePath bPath
      | Inr w' \<Rightarrow> Inr w')"

definition createFileBackup :: "world \<Rightarrow> string \<Rightarrow> string \<Rightarrow> error + world" where
  "createFileBackup w sourcePath bPath = fs_copyFile w sourcePath bPath"

definition getBackupSize :: "world \<Rightarrow> string \<Rightarrow> nat" where
  "getBackupSize w bPath = (case fs_stat w bPath of Inl err \<Rightarrow> 0 | Inr st \<Rightarrow> st_size st)"

definition new_backupPath :: "env \<Rightarrow> security_manager \<Rightarrow> string" where
  "new_backupPath e sm = path_join (backupLocation sm) (fresh_id e @ ''.backup'')"

text \<open>
  The statements of createBackup's try block that can throw: the stat of the target and
  the copy. What follows them (getBackupSize, \<^verbatim>\<open>backups.set\<close>, the log) cannot.
\<close>

definition createBackup_copy :: "env \<Rightarrow> world \<Rightarrow> security_manager \<Rightarrow> string \<Rightarrow> error + world" where
  "createBackup_copy e w sm targetPath =
     (case fs_stat w targetPath of
        Inl err \<Rightarrow> Inl err
      | Inr st \<Rightarrow>
          (if isDirectory st then createDirectoryBackup e w targetPath (new_backupPath e sm)
           else createFileBackup w targetPath (new_backupPath e sm)))"

definition createBackup ::
  "env \<Rightarrow> sec_state \<Rightarrow> string \<Rightarrow> string \<Rightarrow> string option \<times> sec_state" where
  "createBackup e st targetPath op_name =
     (if \<not> sm_enableBackup (snd st) then (None, st)
      else
        (let backupId = fresh_id e;
             st1 = sm_log INFO (''Creating backup for '' @ op_name) st
         in (case createBackup_copy e (fst st1) (snd st1) targetPath of
               Inl err \<Rightarrow>
                 (None, sm_log ERROR (''Failed to create backup: '' @ error_message e err) st1)
             | Inr w' \<Rightarrow>
                 (let entry = \<lparr>backup_id = backupId, originalPath = targetPath,
                                backupPath = new_backupPath e (snd st1), operation = op_name,
                                timestamp = now e,
                                backup_size = getBackupSize w' (new_backupPath e (snd st1))\<rparr>;
                      sm2 = (snd st1)\<lparr>backups := AList.update backupId entry (backups (snd st1))\<rparr>
                  in (Some backupId,
                      sm_log SUCCESS (''Backup created: '' @ backupId) (w', sm2))))))"




section \<open>Analytics (class AnalyticsManager)\<close>

record operation_data =
  op_type :: string
  category :: string
  description :: string
  filesAffected :: nat
  sizeRecovered :: nat
  success :: bool
  op_error :: "string option"

record session_summary =
  filesCleaned :: nat
  spaceRecovered :: nat
  ss_areasProcessed :: nat
  errors :: nat

record session =
  operations :: "operation_data list"
  summary :: session_summary

record analytics_manager =
  enableAnalytics :: bool
  currentSession :: session
  sessions :: "session list"

text \<open>
  trackOperation; the argument is the object the caller passes, \<^verbatim>\<open>x || d\<close> replaces an
  empty string by the default. Identifier, time stamp, duration and metadata of the
  stored entry are left out.
\<close>

definition trackOperation :: "analytics_manager \<Rightarrow> operation_data \<Rightarrow> analytics_manager" where
  "trackOperation am op =
     (if \<not> enableAnalytics am then am
      else
        (let operationData =
               op\<lparr>op_type := (if op_type op = [] then ''unknown'' else op_type op),
                  category := (if category op = [] then ''general'' else category op)\<rparr>;
             cur = currentSession am;
             sm = summary cur;
             sm' = (if success operationData
                    then sm\<lparr>filesCleaned := filesCleaned sm + filesAffected operationData,
                            spaceRecovered := spaceRecovered sm + sizeRecovered operationData,
                            ss_areasProcessed := ss_areasProcessed sm + 1\<rparr>
                    else sm\<lparr>errors := errors sm + 1\<rparr>)
         in am\<lparr>currentSession :=
                  cur\<lparr>operations := operations cur @ [operationData], summary := sm'\<rparr>\<rparr>))"

text \<open>\<^verbatim>\<open>Array.prototype.slice(start, end)\<close>: negative indices count from the end.\<close>

definition js_slice :: "int \<Rightarrow> int option \<Rightarrow> 'a list \<Rightarrow> 'a list" where
  "js_slice start end xs =
     (let len = int (length xs);
          k = (if start < 0 then max (len + start) 0 else min start len);
          relEnd = (case end of None \<Rightarrow> len | Some e \<Rightarrow> e);
          final = (if relEnd < 0 then max (len + relEnd) 0 else min relEnd len)
      in take (nat (final - k)) (drop (nat k) xs))"

datatype trend = Increasing | Decreasing | Stable

text \<open>
  The object calculateTrends returns: \<^verbatim>\<open>{trend: 'insufficient_data'}\<close>, or the trend with
  recentAverage, previousAverage and changePercent. Averages are exact quotients.
\<close>

datatype trends = InsufficientData | Trends trend real real real

definition calculateTrends :: "session list \<Rightarrow> trends" where
  "calculateTrends ss =
     (if length ss < 2 then InsufficientData
      else
        (let recent = js_slice (- 7) None ss;
             previous = js_slice (- 14) (Some (- 7)) ss
         in if length recent = 0 \<or> length previous = 0 then InsufficientData
            else
              (let recentAvg =
                     real (foldl (\<lambda>sum s. sum + spaceRecovered (summary s)) 0 recent)
                       / real (length recent);
                   previousAvg =
                     real (foldl (\<lambda>sum s. sum + spaceRecovered (summary s)) 0 previous)
                       / real (length previous);
                   tr = (if recentAvg > previousAvg then Increasing
                         else if recentAvg < previousAvg then Decreasing else Stable)
               in Trends tr recentAvg previousAvg
                    (if previousAvg > 0 then (recentAvg - previousAvg) / previousAvg * 100
                     else 0))))"

section \<open>The cleaner (lib/cleaner.js, class UltraSystemCleaner with security and analytics)\<close>

record options =
  dryRun :: bool
  enableBackup :: bool

record stats =
  totalCleaned :: nat
  totalFiles :: nat
  areasProcessed :: nat

record cleaner =
  opts :: options
  securityManager :: security_manager
  analyticsManager :: analytics_manager
  stats :: stats

text \<open>The last message of the spinner tells which way cleanPath went.\<close>

datatype spinner = SecurityValidationFailed | NotFound | Empty | DryRun | Freed | PartialCleanup

definition add_stats :: "stats \<Rightarrow> nat \<Rightarrow> nat \<Rightarrow> stats" where
  "add_stats st sz cnt =
     st\<lparr>totalCleaned := totalCleaned st + sz,
        totalFiles := totalFiles st + cnt,
        areasProcessed := areasProcessed st + 1\<rparr>"

text \<open>
  cleanPath returns the spinner's last message, the object \<^verbatim>\<open>{size, count}\<close>, and the
  state it leaves. Of the calls in its try block only \<^verbatim>\<open>rimraf\<close> can throw:
  validateOperation, getFolderSize and createBackup catch their own errors, and the
  errors of \<^verbatim>\<open>fs.access\<close> and \<^verbatim>\<open>fs.mkdir\<close> are caught where they are called.
\<close>

definition cleanPath ::
  "env \<Rightarrow> world \<Rightarrow> cleaner \<Rightarrow> string \<Rightarrow> string \<Rightarrow> string
     \<Rightarrow> spinner \<times> folder_size \<times> world \<times> cleaner" where
  "cleanPath e w cl targetPath descr cat =
     (let (isValid, st1) = validateOperation e (w, securityManager cl) targetPath ''delete'';
          cl1 = cl\<lparr>securityManager := snd st1\<rparr>
      in if \<not> isValid
         then (SecurityValidationFailed, \<lparr>size' = 0, count' = 0\<rparr>, fst st1, cl1)
         else
           (let exists = (case fs_access (fst st1) targetPath of
                            Inl err \<Rightarrow> False | Inr u \<Rightarrow> True)
            in if \<not> exists then (NotFound, \<lparr>size' = 0, count' = 0\<rparr>, fst st1, cl1)
               else
                 (let sz = size' (getFolderSize (fst st1) targetPath);
                      cnt = count' (getFolderSize (fst st1) targetPath)
                  in if sz = 0 then (Empty, \<lparr>size' = 0, count' = 0\<rparr>, fst st1, cl1)
                     else
                       (let (backupId, st2) =
                              (if enableBackup (opts cl) \<and> \<not> dryRun (opts cl)
                               then (let (bid, stb) = createBackup e st1 targetPath ''delete''
                                     in (bid,
                                         sm_log INFO (''Backup created for deletion: '' @ descr)
                                           stb))
                               else (None, st1))
                        in if dryRun (opts cl)
                           then (DryRun, \<lparr>size' = sz, count' = cnt\<rparr>, fst st2,
                                 cl\<lparr>securityManager := snd st2,
                                    stats := add_stats (stats cl) sz cnt\<rparr>)
                           else
                             (case rimraf (fst st2) targetPath of
                                Inl err \<Rightarrow>
                                  (let st3 = sm_log ERROR (''Cleanup failed: '' @ descr) st2
                                   in (PartialCleanup, \<lparr>size' = 0, count' = 0\<rparr>, fst st3,
                                       cl\<lparr>securityManager := snd st3,
                                          analyticsManager :=
                                            trackOperation (analyticsManager cl)
                                              \<lparr>op_type = ''cleanup'', category = cat,
                                               description = descr, filesAffected = 0,
                                               sizeRecovered = 0, success = False,
                                               op_error = Some (error_message e err)\<rparr>\<rparr>))
                              | Inr w3 \<Rightarrow>
                                  (let w4 = (case fs_mkdir w3 targetPath of
                                               Inl err \<Rightarrow> w3 | Inr w' \<Rightarrow> w');
                                       st5 = sm_log SUCCESS (''Cleanup completed: '' @ descr)
                                               (w4, snd st2)
                                   in (Freed, \<lparr>size' = sz, count' = cnt\<rparr>, fst st5,
                                       cl\<lparr>stats := add_stats (stats cl) sz cnt,
                                          securityManager := snd st5,
                                          analyticsManager :=
                                            trackOperation (analyticsManager cl)
                                              \<lparr>op_type = ''cleanup'', category = cat,
                                               description = descr, filesAffected = cnt,
                                               sizeRecovered = sz, success = True,
                                               op_error = None\<rparr>\<rparr>)))))))"

text \<open>The four components of what cleanPath returns.\<close>

abbreviation cp_spinner :: "spinner \<times> folder_size \<times> world \<times> cleaner \<Rightarrow> spinner" where
  "cp_spinner r \<equiv> fst r"

abbreviation cp_result :: "spinner \<times> folder_size \<times> world \<times> cleaner \<Rightarrow> folder_size" where
  "cp_result r \<equiv> fst (snd r)"

abbreviation cp_world :: "spinner \<times> folder_size \<times> world \<times> cleaner \<Rightarrow> world" where
  "cp_world r \<equiv> fst (snd (snd r))"

abbreviation cp_cleaner :: "spinner \<times> folder_size \<times> world \<times> cleaner \<Rightarrow> cleaner" where
  "cp_cleaner r \<equiv> snd (snd (snd r))"

text \<open>
  The lines that reach the log file when the entries \<open>new\<close> are logged: all of them with
  logging enabled and the append working, none otherwise.
\<close>

definition log_file_lines :: "world \<Rightarrow> security_manager \<Rightarrow> log_entry list \<Rightarrow> (string \<times> log_entry) list" where
  "log_file_lines w sm new =
     (if sm_enableLogging sm \<and> \<not> fails w AppendFile (logLocation sm)
      then map (Pair (logLocation sm)) new else [])"

text \<open>A state that differs from another one by the log entries \<open>new\<close> only.\<close>

definition with_logged :: "sec_state \<Rightarrow> log_entry list \<Rightarrow> sec_state" where
  "with_logged st new =
     ((fst st)\<lparr>appended := appended (fst st) @ log_file_lines (fst st) (snd st) new\<rparr>,
      (snd st)\<lparr>operationLog := operationLog (snd st) @ new\<rparr>)"

section \<open>Example states\<close>

text \<open>
  The fixture of the specification's scenarios: a directory \<^verbatim>\<open>/tmp/fixture\<close> with three
  files of 150 bytes in total, a fresh cleaner with backups and logging enabled, no
  faults, an empty log file.
\<close>

definition fixture_dir :: node where
  "fixture_dir =
     Dir [(''a.tmp'', File 100 Opaque), (''b.tmp'', File 30 Opaque), (''c.tmp'', File 20 Opaque)]"

definition fixture_world :: world where
  "fixture_world =
     \<lparr>roots = [(''/tmp/fixture'', fixture_dir)], faults = [], dir_stat_size = 4096,
      appended = []\<rparr>"

fun errno_name :: "errno \<Rightarrow> string" where
  "errno_name ENOENT = ''ENOENT: no such file or directory''"
| "errno_name EACCES = ''EACCES: permission denied''"
| "errno_name ENOTDIR = ''ENOTDIR: not a directory''"
| "errno_name EISDIR = ''EISDIR: illegal operation on a directory''"
| "errno_name EEXIST = ''EEXIST: file already exists''"

fun syscall_name :: "fs_op \<Rightarrow> string" where
  "syscall_name Access = ''access''"
| "syscall_name AccessRW = ''access''"
| "syscall_name Readdir = ''scandir''"
| "syscall_name Stat = ''stat''"
| "syscall_name Rimraf = ''rmdir''"
| "syscall_name Mkdir = ''mkdir''"
| "syscall_name Cp = ''cp''"
| "syscall_name CopyFile = ''copyfile''"
| "syscall_name WriteFile = ''open''"
| "syscall_name ReadFile = ''open''"
| "syscall_name AppendFile = ''open''"

text \<open>One possible wording of the platform's messages, for the example environment.\<close>

fun example_wording :: "error \<Rightarrow> string" where
  "example_wording (FsError code fop p) =
     errno_name code @ '', '' @ syscall_name fop @ '' '' @ [CHR 0x27] @ p @ [CHR 0x27]"
| "example_wording JsonSyntaxError = ''Unexpected token in JSON''"
| "example_wording JsTypeError = ''Cannot read properties of null''"
| "example_wording err = []"

definition fixture_env :: env where
  "fixture_env =
     \<lparr>now = 1000, fresh_id = ''1000-k3x9'', homedir = ''/home/user'',
      json_length = (\<lambda>files. 2), platform_message = example_wording\<rparr>"

definition new_security_manager :: "bool \<Rightarrow> security_manager" where
  "new_security_manager backup =
     \<lparr>sm_enableBackup = backup, sm_enableLogging = True,
      backupLocation = ''/home/user/.ultra-cleaner-backups'',
      logLocation = ''/home/user/.ultra-cleaner.log'', operationLog = [], backups = []\<rparr>"

definition new_analytics_manager :: analytics_manager where
  "new_analytics_manager =
     \<lparr>enableAnalytics = True,
      currentSession =
        \<lparr>operations = [],
         summary = \<lparr>filesCleaned = 0, spaceRecovered = 0, ss_areasProcessed = 0, errors = 0\<rparr>\<rparr>,
      sessions = []\<rparr>"

text \<open>The constructor of the cleaner hands its backup option to the security manager.\<close>

definition new_cleaner :: "bool \<Rightarrow> bool \<Rightarrow> cleaner" where
  "new_cleaner dry backup =
     \<lparr>opts = \<lparr>dryRun = dry, enableBackup = backup\<rparr>,
      securityManager = new_security_manager backup,
      analyticsManager = new_analytics_manager,
      stats = \<lparr>totalCleaned = 0, totalFiles = 0, areasProcessed = 0\<rparr>\<rparr>"

text \<open>A directory that holds one file inside a subdirectory.\<close>

definition nested_world :: world where
  "nested_world =
     \<lparr>roots = [(''/data'', Dir [(''sub'', Dir [(''f.bin'', File 5 Opaque)])])],
      faults = [], dir_stat_size = 4096, appended = []\<rparr>"

text \<open>A directory that holds only files of size zero.\<close>

definition zero_byte_world :: world where
  "zero_byte_world =
     \<lparr>roots = [(''/tmp/cache'', Dir [(''a.lock'', File 0 Opaque), (''b.lock'', File 0 Opaque)])],
      faults = [], dir_stat_size = 4096, appended = []\<rparr>"

text \<open>The fixture when \<^verbatim>\<open>rimraf\<close> throws on it (a file in use, a missing permission).\<close>

definition locked_world :: world where
  "locked_world = fixture_world\<lparr>faults := [(Rimraf, ''/tmp/fixture'')]\<rparr>"

text \<open>The fixture when nothing can be written to the backup location.\<close>

definition full_disk_world :: world where
  "full_disk_world =
     fixture_world\<lparr>faults :=
       [(Cp, ''/tmp/fixture''),
        (WriteFile, ''/home/user/.ultra-cleaner-backups/1000-k3x9.backup'')]\<rparr>"

text \<open>The fixture when only the recursive copy fails: the manifest can still be written.\<close>

definition copy_fault_world :: world where
  "copy_fault_world = fixture_world\<lparr>faults := [(Cp, ''/tmp/fixture'')]\<rparr>"

text \<open>A single file as the target, which cannot be copied.\<close>

definition single_file_world :: world where
  "single_file_world =
     \<lparr>roots = [(''/tmp/core.dump'', File 700 Opaque)],
      faults = [(CopyFile, ''/tmp/core.dump'')], dir_stat_size = 4096, appended = []\<rparr>"



text \<open>A configuration with one global exclude pattern.\<close>

definition exclude_fixture_config :: config where
  "exclude_fixture_config =
     \<lparr>excludePatterns = Some \<lparr>global = Some [''**/fixture''], perCategory = None\<rparr>\<rparr>"

text \<open>Session histories for the trend computation.\<close>

definition mean_spaceRecovered :: "session list \<Rightarrow> real" where
  "mean_spaceRecovered xs =
     real (sum_list (map (\<lambda>s. spaceRecovered (summary s)) xs)) / real (length xs)"

definition session_with :: "nat \<Rightarrow> session" where
  "session_with n =
     \<lparr>operations = [],
      summary = \<lparr>filesCleaned = 0, spaceRecovered = n, ss_areasProcessed = 0, errors = 0\<rparr>\<rparr>"

definition fourteen_sessions :: "session list" where
  "fourteen_sessions =
     map session_with [10, 20, 30, 40, 50, 60, 70, 80, 90, 100, 110, 120, 130, 140]"

section \<open>Trend computation\<close>

lemma js_slice_recent: "js_slice (- 7) None xs = drop (length xs - 7) xs"
  by (auto simp: js_slice_def Let_def max_def nat_diff_distrib')

lemma js_slice_previous:
  "js_slice (- 14) (Some (- 7)) xs =
     take (length xs - 7 - (length xs - 14)) (drop (length xs - 14) xs)"
  by (auto simp: js_slice_def Let_def max_def nat_diff_distrib')

lemma foldl_space:
  "foldl (\<lambda>sum s. sum + spaceRecovered (summary s)) a xs =
     a + sum_list (map (\<lambda>s. spaceRecovered (summary s)) xs)"
  by (induction xs arbitrary: a) auto

lemma sum_list_strict_less:
  fixes xs ys :: "nat list"
  assumes "length xs = length ys" and "xs \<noteq> []" and "\<forall>x\<in>set xs. \<forall>y\<in>set ys. x < y"
  shows "sum_list xs < sum_list ys"
  using assms
proof (induction xs ys rule: list_induct2)
  case Nil
  then show ?case by simp
next
  case (Cons x xs y ys)
  show ?case
  proof (cases "xs = []")
    case True
    with Cons show ?thesis by simp
  next
    case False
    with Cons have "sum_list xs < sum_list ys" by simp
    moreover from Cons.prems have "x < y" by simp
    ultimately show ?thesis by simp
  qed
qed

lemma fourteen_increasing:
  assumes len: "length ss = 14"
    and inc: "sorted_wrt (<) (map (\<lambda>s. spaceRecovered (summary s)) ss)"
  shows "mean_spaceRecovered (take 7 ss) < mean_spaceRecovered (drop 7 ss)"
proof -
  let ?f = "\<lambda>s. spaceRecovered (summary s)"
  have "map ?f ss = map ?f (take 7 ss) @ map ?f (drop 7 ss)"
    by (simp flip: map_append)
  with inc have "sorted_wrt (<) (map ?f (take 7 ss) @ map ?f (drop 7 ss))" by simp
  then have cross: "\<forall>x\<in>set (map ?f (take 7 ss)). \<forall>y\<in>set (map ?f (drop 7 ss)). x < y"
    unfolding sorted_wrt_append by blast
  have "sum_list (map ?f (take 7 ss)) < sum_list (map ?f (drop 7 ss))"
  proof (rule sum_list_strict_less)
    show "length (map ?f (take 7 ss)) = length (map ?f (drop 7 ss))" using len by simp
    show "map ?f (take 7 ss) \<noteq> []" using len by auto
    show "\<forall>x\<in>set (map ?f (take 7 ss)). \<forall>y\<in>set (map ?f (drop 7 ss)). x < y" by (rule cross)
  qed
  then show ?thesis
    using len by (simp add: mean_spaceRecovered_def divide_strict_right_mono)
qed

text \<open>
  Claim C7. A history of fewer than two sessions gives "insufficient data". A history of
  14 sessions whose spaceRecovered strictly increases gives the trend "increasing": the
  recent window is the last seven sessions, the previous window the first seven, and the
  mean of the recent window is the larger one.
\<close>

theorem calculateTrends_session_trend:
  "(length ss < 2 \<longrightarrow> calculateTrends ss = InsufficientData) \<and>
   (length ss = 14 \<and> sorted_wrt (<) (map (\<lambda>s. spaceRecovered (summary s)) ss) \<longrightarrow>
      mean_spaceRecovered (take 7 ss) < mean_spaceRecovered (drop 7 ss) \<and>
      (\<exists>change. calculateTrends ss =
         Trends Increasing (mean_spaceRecovered (drop 7 ss)) (mean_spaceRecovered (take 7 ss))
           change))"
proof (intro conjI impI)
  assume "length ss < 2"
  then show "calculateTrends ss = InsufficientData" by (simp add: calculateTrends_def)
next
  assume h: "length ss = 14 \<and> sorted_wrt (<) (map (\<lambda>s. spaceRecovered (summary s)) ss)"
  then show "mean_spaceRecovered (take 7 ss) < mean_spaceRecovered (drop 7 ss)"
    using fourteen_increasing by blast
next
  assume h: "length ss = 14 \<and> sorted_wrt (<) (map (\<lambda>s. spaceRecovered (summary s)) ss)"
  then have lt: "mean_spaceRecovered (take 7 ss) < mean_spaceRecovered (drop 7 ss)"
    using fourteen_increasing by blast
  from h have len: "length ss = 14" by simp
  have r: "js_slice (- 7) None ss = drop 7 ss" using len by (simp add: js_slice_recent)
  have p: "js_slice (- 14) (Some (- 7)) ss = take 7 ss" using len by (simp add: js_slice_previous)
  show "\<exists>change. calculateTrends ss =
         Trends Increasing (mean_spaceRecovered (drop 7 ss)) (mean_spaceRecovered (take 7 ss))
           change"
    using lt len
    by (auto simp: calculateTrends_def Let_def r p foldl_space mean_spaceRecovered_def)
qed

theorem calculateTrends_session_trend_witness:
  "calculateTrends [session_with 5] = InsufficientData \<and>
   (\<exists>change. calculateTrends fourteen_sessions = Trends Increasing 110 40 change)"
proof -
  have a: "length [session_with 5] < 2" by simp
  have b: "length fourteen_sessions = 14 \<and>
           sorted_wrt (<) (map (\<lambda>s. spaceRecovered (summary s)) fourteen_sessions)"
    by (simp add: fourteen_sessions_def session_with_def)
  have m1: "mean_spaceRecovered (drop 7 fourteen_sessions) = 110"
    by (simp add: fourteen_sessions_def session_with_def mean_spaceRecovered_def)
  have m2: "mean_spaceRecovered (take 7 fourteen_sessions) = 40"
    by (simp add: fourteen_sessions_def session_with_def mean_spaceRecovered_def)
  from calculateTrends_session_trend[of "[session_with 5]"] a
  have "calculateTrends [session_with 5] = InsufficientData" by blast
  moreover from calculateTrends_session_trend[of fourteen_sessions] b
  have "\<exists>change. calculateTrends fourteen_sessions =
         Trends Increasing (mean_spaceRecovered (drop 7 fourteen_sessions))
           (mean_spaceRecovered (take 7 fourteen_sessions)) change" by blast
  ultimately show ?thesis by (simp add: m1 m2)
qed

text \<open>
  Claim C10. A history of at most seven sessions gives "insufficient data", because the
  window of the preceding seven sessions, \<^verbatim>\<open>slice(-14, -7)\<close>, is then empty; a history of
  eight or more sessions gives a numeric trend.
\<close>

theorem calculateTrends_needs_eight:
  "(length ss \<le> 7 \<longrightarrow>
      js_slice (- 14) (Some (- 7)) ss = [] \<and> calculateTrends ss = InsufficientData) \<and>
   (8 \<le> length ss \<longrightarrow> calculateTrends ss \<noteq> InsufficientData)"
  by (auto simp: calculateTrends_def Let_def js_slice_recent js_slice_previous)

theorem calculateTrends_needs_eight_witness:
  "js_slice (- 14) (Some (- 7)) (take 7 fourteen_sessions) = [] \<and>
   calculateTrends (take 7 fourteen_sessions) = InsufficientData \<and>
   calculateTrends (take 8 fourteen_sessions) \<noteq> InsufficientData"
  using calculateTrends_needs_eight[of "take 7 fourteen_sessions"]
        calculateTrends_needs_eight[of "take 8 fourteen_sessions"]
  by (simp add: fourteen_sessions_def)

section \<open>Exclusion matcher\<close>

text \<open>What the three wildcards become, and a few matches of the resulting expressions.\<close>

lemma glob_to_regex_wildcards:
  "glob_to_regex ''**'' = ''.[^/]*''"
  "glob_to_regex ''*'' = ''[^/]*''"
  "glob_to_regex ''?'' = ''[^/]''"
  by (simp_all add: glob_to_regex_def escape_specials_def regex_special_def replace_star_def
        replace_question_def)

lemma matchesPattern_examples:
  "matchesPattern ''/tmp/a/keep'' ''/tmp/**/keep''"
  "matchesPattern ''/var/log/app.LOG'' ''*.log''"
  "\<not> matchesPattern ''/var/log/a/b'' ''log/*b''"
  "matchesPattern ''/tmp/x1'' ''/tmp/x?''"
  "\<not> matchesPattern ''/tmp/x/'' ''/tmp/x?''"
  "\<not> matchesPattern ''ab'' ''a**b''"
  by code_simp+

text \<open>
  A match of a global pattern excludes the path, whatever patterns the category has; a
  category that makes the spread throw ends the call before that.
\<close>

lemma shouldExcludePath_global:
  assumes "excludePatterns c = Some ep" and "global ep = Some g"
    and "pat \<in> set g" and "matchesPattern filePath pat"
    and "category_patterns ep cat = Inr ps"
  shows "shouldExcludePath (Some c) filePath cat = Inr True"
  using assms by (auto simp: shouldExcludePath_def list_ex_iff)

lemma shouldExcludePath_inherited_member:
  "shouldExcludePath
     (Some \<lparr>excludePatterns = Some \<lparr>global = Some [''**/fixture''], perCategory = Some Map.empty\<rparr>\<rparr>)
     ''/tmp/fixture'' (Some ''toString'') = Inl JsTypeError"
  by (simp add: shouldExcludePath_def category_patterns_def object_prototype_members_def)

text \<open>
  Claim C2. The second replacement turns \<^verbatim>\<open>**\<close> into \<^verbatim>\<open>.*\<close>, and the third one then
  rewrites the star of that very text, so that \<^verbatim>\<open>**\<close> reaches the regular expression as
  \<^verbatim>\<open>.[^/]*\<close>: one character followed by characters other than the separator. The pattern
  \<^verbatim>\<open>/tmp/**/keep\<close> therefore does not match \<^verbatim>\<open>/tmp/a/b/keep\<close>, where \<^verbatim>\<open>**\<close> would have
  to match \<^verbatim>\<open>a/b\<close>.
\<close>

theorem matchesPattern_double_star_one_segment:
  "glob_to_regex ''/tmp/**/keep'' = ''/tmp/.[^/]*/keep'' \<and>
   \<not> matchesPattern ''/tmp/a/b/keep'' ''/tmp/**/keep''"
  by code_simp

section \<open>Size accounting\<close>

text \<open>The pattern matching of calculateRecursive is the try block around readdir.\<close>

lemma calculateRecursive_readdir:
  "calculateRecursive w p found acc =
     (case readdir_node w p found of Inl err \<Rightarrow> acc | Inr items \<Rightarrow> for_items w p items acc)"
  by (cases "(w, p, found)" rule: readdir_node.cases) auto

text \<open>
  A directory without subdirectories is measured as the specification says: the sizes of
  the files whose stat succeeds are added up, each file once.
\<close>

lemma for_items_files_only:
  assumes "list_all (\<lambda>item. \<not> is_dir (snd item)) items"
  shows "for_items w cur items acc =
           \<lparr>size' = size' acc +
              sum_list (map (\<lambda>item. file_size (snd item))
                          (filter (\<lambda>item. \<not> fails w Stat (path_join cur (fst item))) items)),
            count' = count' acc +
              length (filter (\<lambda>item. \<not> fails w Stat (path_join cur (fst item))) items)\<rparr>"
  using assms
proof (induction items arbitrary: acc)
  case Nil
  then show ?case by simp
next
  case (Cons item items)
  obtain name n where item: "item = (name, n)" by (cases item)
  with Cons.prems obtain sz c where n: "n = File sz c" by (cases n) auto
  from Cons.prems have rest: "list_all (\<lambda>item. \<not> is_dir (snd item)) items" by simp
  show ?case
    using Cons.IH[OF rest] by (simp add: item n Let_def)
qed

lemma getFolderSize_flat_directory:
  assumes "map_of (roots w) p = Some (Dir items)"
    and "list_all (\<lambda>item. \<not> is_dir (snd item)) items"
    and "\<not> fails w Readdir p"
  shows "size' (getFolderSize w p) =
           sum_list (map (\<lambda>item. file_size (snd item))
             (filter (\<lambda>item. \<not> fails w Stat (path_join p (fst item))) items))"
    and "size' (getFolderSize w p) \<le> sum_list (map (\<lambda>item. file_size (snd item)) items)"
    and "faults w = [] \<Longrightarrow>
           getFolderSize w p =
             \<lparr>size' = sum_list (map (\<lambda>item. file_size (snd item)) items),
              count' = length items\<rparr>"
proof -
  show eq: "size' (getFolderSize w p) =
           sum_list (map (\<lambda>item. file_size (snd item))
             (filter (\<lambda>item. \<not> fails w Stat (path_join p (fst item))) items))"
    using assms by (simp add: getFolderSize_def for_items_files_only)
  have "sum_list (map (\<lambda>item. file_size (snd item)) (filter P items))
          \<le> sum_list (map (\<lambda>item. file_size (snd item)) items)" for P
    by (induction items) auto
  with eq show "size' (getFolderSize w p) \<le> sum_list (map (\<lambda>item. file_size (snd item)) items)"
    by simp
  show "getFolderSize w p =
             \<lparr>size' = sum_list (map (\<lambda>item. file_size (snd item)) items),
              count' = length items\<rparr>" if "faults w = []"
    using assms that by (simp add: getFolderSize_def for_items_files_only fails_def)
qed

text \<open>
  Claim C5. A path at which nothing exists measures as size 0 and count 0: the error of
  readdir is caught inside calculateRecursive.
\<close>

theorem getFolderSize_missing_path:
  "map_of (roots w) p = None \<Longrightarrow> getFolderSize w p = \<lparr>size' = 0, count' = 0\<rparr>"
  by (simp add: getFolderSize_def)

theorem getFolderSize_missing_path_witness:
  "map_of (roots fixture_world) ''/tmp/missing'' = None \<and>
   getFolderSize fixture_world ''/tmp/missing'' = \<lparr>size' = 0, count' = 0\<rparr>"
proof -
  have h: "map_of (roots fixture_world) ''/tmp/missing'' = None"
    by (simp add: fixture_world_def)
  from getFolderSize_missing_path[OF h] h show ?thesis by simp
qed

text \<open>
  Claim C4. A file below a subdirectory is counted twice: the inner call adds it to the
  shared totals and returns them, and the caller adds the returned totals once more. With
  one file of 5 bytes in one subdirectory and no error, the measure is 10 bytes in 2 files.
\<close>

theorem getFolderSize_counts_nested_file_twice:
  "getFolderSize nested_world ''/data'' = \<lparr>size' = 10, count' = 2\<rparr>"
  by (simp add: getFolderSize_def nested_world_def fails_def path_join_def)

section \<open>Logging\<close>

text \<open>Appending to a log file changes nothing that the other calls read.\<close>

lemma fails_appended: "fails (w\<lparr>appended := x\<rparr>) fop p = fails w fop p"
  by (simp add: fails_def)

lemma stat_node_appended: "stat_node (w\<lparr>appended := x\<rparr>) p found = stat_node w p found"
  by (cases "(w, p, found)" rule: stat_node.cases) (simp_all add: fails_appended)

lemma walk_appended:
  "calculateRecursive (w\<lparr>appended := x\<rparr>) p found acc = calculateRecursive w p found acc"
  "for_items (w\<lparr>appended := x\<rparr>) p items acc = for_items w p items acc"
proof (induction w p found acc and w p items acc rule: calculateRecursive_for_items.induct)
  case (5 w currentPath name n rest acc)
  show ?case
  proof (cases n)
    case (File sz c)
    with 5 show ?thesis
      by (cases "fails w Stat (path_join currentPath name)")
         (force simp: Let_def stat_node_appended fails_appended)+
  next
    case (Dir sub)
    with 5 show ?thesis by (simp add: Let_def)
  qed
qed (simp_all add: fails_appended)

lemma getFolderSize_appended: "getFolderSize (w\<lparr>appended := x\<rparr>) p = getFolderSize w p"
  by (simp add: getFolderSize_def walk_appended)

lemma fs_access_appended: "fs_access (w\<lparr>appended := x\<rparr>) p = fs_access w p"
  by (simp add: fs_access_def fails_appended)

lemma fs_access_rw_appended: "fs_access_rw (w\<lparr>appended := x\<rparr>) p = fs_access_rw w p"
  by (simp add: fs_access_rw_def fails_appended)

lemma fs_stat_appended: "fs_stat (w\<lparr>appended := x\<rparr>) p = fs_stat w p"
  by (simp add: fs_stat_def stat_node_appended)


text \<open>One call of the logger adds one entry to the operation log and its line to the file.\<close>

lemma with_logged_nil: "with_logged st [] = st"
  by (simp add: with_logged_def log_file_lines_def)

lemma with_logged_fields:
  "roots (fst (with_logged st new)) = roots (fst st)"
  "faults (fst (with_logged st new)) = faults (fst st)"
  "dir_stat_size (fst (with_logged st new)) = dir_stat_size (fst st)"
  "backups (snd (with_logged st new)) = backups (snd st)"
  "sm_enableBackup (snd (with_logged st new)) = sm_enableBackup (snd st)"
  "backupLocation (snd (with_logged st new)) = backupLocation (snd st)"
  "operationLog (snd (with_logged st new)) = operationLog (snd st) @ new"
  by (simp_all add: with_logged_def)

lemma sm_log_with_logged:
  "sm_log lv msg (with_logged st new) = with_logged st (new @ [\<lparr>level = lv, message = msg\<rparr>])"
  by (simp add: sm_log_def with_logged_def log_file_lines_def logToFile_def fs_appendFile_def
        fails_appended Let_def)

lemma sm_log_eq: "sm_log lv msg st = with_logged st [\<lparr>level = lv, message = msg\<rparr>]"
  using sm_log_with_logged[of lv msg st "[]"] by (simp add: with_logged_nil)

lemma with_logged_with_logged:
  "with_logged (with_logged st a) b = with_logged st (a @ b)"
  by (simp add: with_logged_def log_file_lines_def fails_appended)

lemma fold_warn_logged:
  "\<exists>ls. fold (\<lambda>sp s. if P sp then sm_log WARN (m sp) s else s) xs (with_logged st new) =
          with_logged st (new @ ls) \<and> list_all (\<lambda>x. level x = WARN) ls"
proof (induction xs arbitrary: new)
  case Nil
  show ?case by (rule exI[of _ "[]"]) simp
next
  case (Cons x xs)
  show ?case
  proof (cases "P x")
    case True
    from Cons[of "new @ [\<lparr>level = WARN, message = m x\<rparr>]"] obtain ls where
      "fold (\<lambda>sp s. if P sp then sm_log WARN (m sp) s else s) xs
         (with_logged st (new @ [\<lparr>level = WARN, message = m x\<rparr>])) =
       with_logged st ((new @ [\<lparr>level = WARN, message = m x\<rparr>]) @ ls)"
      and "list_all (\<lambda>x. level x = WARN) ls" by blast
    with True show ?thesis
      by (intro exI[of _ "\<lparr>level = WARN, message = m x\<rparr> # ls"]) (simp add: sm_log_with_logged)
  next
    case False
    with Cons[of new] show ?thesis by simp
  qed
qed

lemma validateOperation_ok:
  "fst (validateOperation e (w, sm) p opn) \<longleftrightarrow>
     (map_of (roots w) p \<noteq> None \<and> \<not> fails w Access p \<and> \<not> fails w AccessRW p)"
  by (auto simp: validateOperation_def Let_def fs_access_def fs_access_rw_def
           split: sum.splits option.splits if_splits)

lemma validateOperation_logged:
  "\<exists>new. snd (validateOperation e st p opn) = with_logged st new \<and> new \<noteq> []"
proof -
  from fold_warn_logged[of "\<lambda>sp. includes' p sp \<and> \<not> startsWith p (homedir e)"
         "\<lambda>sp. ''Operating on system path: '' @ p" "systemPaths e" st "[]"]
  obtain ls where
    "fold (\<lambda>sp s. if includes' p sp \<and> \<not> startsWith p (homedir e)
                   then sm_log WARN (''Operating on system path: '' @ p) s else s)
          (systemPaths e) st = with_logged st ls"
    by (auto simp: with_logged_nil)
  then show ?thesis
    by (auto simp: validateOperation_def Let_def sm_log_eq with_logged_with_logged
             split: sum.splits)
qed

section \<open>Backup and restore\<close>

lemma fs_cp_appended:
  "fs_cp (w\<lparr>appended := x\<rparr>) src dst = map_sum id (\<lambda>w'. w'\<lparr>appended := x\<rparr>) (fs_cp w src dst)"
  by (simp add: fs_cp_def fails_appended split: option.splits)

lemma fs_copyFile_appended:
  "fs_copyFile (w\<lparr>appended := x\<rparr>) src dst =
     map_sum id (\<lambda>w'. w'\<lparr>appended := x\<rparr>) (fs_copyFile w src dst)"
  by (simp add: fs_copyFile_def fails_appended split: option.splits node.splits)

lemma fs_writeFile_appended:
  "fs_writeFile (w\<lparr>appended := x\<rparr>) p sz c =
     map_sum id (\<lambda>w'. w'\<lparr>appended := x\<rparr>) (fs_writeFile w p sz c)"
  by (simp add: fs_writeFile_def fails_appended split: option.splits node.splits)

lemma manifest_entries_appended:
  "manifest_entries (w\<lparr>appended := x\<rparr>) src items = manifest_entries w src items"
  by (induction w src items rule: manifest_entries.induct)
     (simp_all add: stat_node_appended split: sum.splits)

lemma fs_readdir_appended: "fs_readdir (w\<lparr>appended := x\<rparr>) p = fs_readdir w p"
proof -
  have "readdir_node (w\<lparr>appended := x\<rparr>) p found = readdir_node w p found" for found
    by (cases "(w, p, found)" rule: readdir_node.cases) (simp_all add: fails_appended)
  then show ?thesis by (simp add: fs_readdir_def)
qed

lemma createManifestBackup_appended:
  "createManifestBackup e (w\<lparr>appended := x\<rparr>) src dst =
     map_sum id (\<lambda>w'. w'\<lparr>appended := x\<rparr>) (createManifestBackup e w src dst)"
proof (cases "fs_readdir w src")
  case (Inl err)
  then show ?thesis by (simp add: createManifestBackup_def fs_readdir_appended)
next
  case (Inr items)
  show ?thesis
  proof (cases "manifest_entries w src items")
    case (Inl err)
    with Inr show ?thesis
      by (simp add: createManifestBackup_def fs_readdir_appended manifest_entries_appended)
  next
    case files: (Inr files)
    with Inr show ?thesis
      by (cases "fs_writeFile w dst (json_length e files) (Manifest files)")
         (simp_all add: createManifestBackup_def fs_readdir_appended manifest_entries_appended
            fs_writeFile_appended)
  qed
qed

lemma createBackup_copy_appended:
  "createBackup_copy e (w\<lparr>appended := x\<rparr>) (sm\<lparr>operationLog := l\<rparr>) p =
     map_sum id (\<lambda>w'. w'\<lparr>appended := x\<rparr>) (createBackup_copy e w sm p)"
proof (cases "fs_stat w p")
  case (Inl err)
  then show ?thesis by (simp add: createBackup_copy_def fs_stat_appended)
next
  case (Inr st)
  then show ?thesis
    by (cases "fs_cp w p (path_join (backupLocation sm) (fresh_id e @ ''.backup''))")
       (simp_all add: createBackup_copy_def createDirectoryBackup_def createFileBackup_def
          new_backupPath_def fs_stat_appended fs_cp_appended fs_copyFile_appended
          createManifestBackup_appended)
qed

lemma fs_cp_faults: "fs_cp w src dst = Inr w' \<Longrightarrow> faults w' = faults w"
  by (auto simp: fs_cp_def split: if_splits option.splits)

lemma fs_copyFile_faults: "fs_copyFile w src dst = Inr w' \<Longrightarrow> faults w' = faults w"
  by (auto simp: fs_copyFile_def split: if_splits option.splits node.splits)

lemma fs_writeFile_faults: "fs_writeFile w p sz c = Inr w' \<Longrightarrow> faults w' = faults w"
  by (auto simp: fs_writeFile_def split: if_splits option.splits node.splits)

lemma createManifestBackup_faults:
  "createManifestBackup e w src dst = Inr w' \<Longrightarrow> faults w' = faults w"
  by (auto simp: createManifestBackup_def split: sum.splits dest: fs_writeFile_faults)

lemma createBackup_copy_faults:
  "createBackup_copy e w sm p = Inr w' \<Longrightarrow> faults w' = faults w"
  by (auto simp: createBackup_copy_def createDirectoryBackup_def createFileBackup_def
           split: sum.splits if_splits
           dest: fs_cp_faults fs_copyFile_faults createManifestBackup_faults)

lemma sm_log_faults: "faults (fst (sm_log lv msg st)) = faults (fst st)"
  by (simp add: sm_log_eq with_logged_fields)

text \<open>What createBackup returns when the copy step throws, and that it throws on nothing else.\<close>

lemma createBackup_copy_logged:
  "createBackup_copy e (fst (with_logged (w, sm) new)) (snd (with_logged (w, sm) new)) p =
     map_sum id (\<lambda>w'. w'\<lparr>appended := appended w @ log_file_lines w sm new\<rparr>)
       (createBackup_copy e w sm p)"
  by (simp add: with_logged_def createBackup_copy_appended)

lemma createBackup_failure:
  assumes "sm_enableBackup sm" and "createBackup_copy e w sm p = Inl err"
  shows "createBackup e (w, sm) p opn =
           (None, with_logged (w, sm)
              [\<lparr>level = INFO, message = ''Creating backup for '' @ opn\<rparr>,
               \<lparr>level = ERROR, message = ''Failed to create backup: '' @ error_message e err\<rparr>])"
  using assms
  by (simp add: createBackup_def Let_def sm_log_eq createBackup_copy_logged
        with_logged_with_logged)

lemma createBackup_success:
  assumes "sm_enableBackup sm" and "createBackup_copy e w sm p = Inr w'"
  shows "fst (createBackup e (w, sm) p opn) = Some (fresh_id e)"
  using assms
  by (simp add: createBackup_def Let_def sm_log_eq createBackup_copy_logged)

lemma createBackup_faults:
  "faults (fst (snd (createBackup e st p opn))) = faults (fst st)"
proof (cases "createBackup_copy e (fst (sm_log INFO (''Creating backup for '' @ opn) st))
                (snd (sm_log INFO (''Creating backup for '' @ opn) st)) p")
  case (Inl err)
  then show ?thesis by (simp add: createBackup_def Let_def sm_log_faults)
next
  case (Inr w')
  from createBackup_copy_faults[OF Inr] Inr show ?thesis
    by (simp add: createBackup_def Let_def sm_log_faults)
qed

lemma createBackup_copy_fails_iff:
  "createBackup_copy e w sm p = Inl err \<longleftrightarrow>
     (fs_stat w p = Inl err \<or>
      (\<exists>st. fs_stat w p = Inr st \<and> \<not> isDirectory st \<and>
            fs_copyFile w p (new_backupPath e sm) = Inl err) \<or>
      (\<exists>st err1. fs_stat w p = Inr st \<and> isDirectory st \<and>
            fs_cp w p (new_backupPath e sm) = Inl err1 \<and>
            createManifestBackup e w p (new_backupPath e sm) = Inl err))"
  by (auto simp: createBackup_copy_def createDirectoryBackup_def createFileBackup_def
           split: sum.splits)






section \<open>The cleaner\<close>

lemma logged_reads:
  "fs_access (fst (with_logged (w, sm) new)) p = fs_access w p"
  "getFolderSize (fst (with_logged (w, sm) new)) p = getFolderSize w p"
  "faults (fst (with_logged (w, sm) new)) = faults w"
  by (simp_all add: with_logged_def fs_access_appended getFolderSize_appended)

text \<open>The validation as cleanPath sees it: an answer and some new log entries.\<close>

lemma validateOperation_result:
  "\<exists>new. new \<noteq> [] \<and>
     validateOperation e (w, sm) p opn =
       (map_of (roots w) p \<noteq> None \<and> \<not> fails w Access p \<and> \<not> fails w AccessRW p,
        with_logged (w, sm) new)"
proof -
  from validateOperation_logged[of e "(w, sm)" p opn] obtain new where
    "snd (validateOperation e (w, sm) p opn) = with_logged (w, sm) new" and "new \<noteq> []"
    by blast
  with validateOperation_ok[of e w sm p opn] show ?thesis
    by (intro exI[of _ new]) (auto simp: prod_eq_iff)
qed

text \<open>The ways through cleanPath in preview mode.\<close>

lemma cleanPath_dry:
  assumes "dryRun (opts cl)"
  shows "\<exists>new. new \<noteq> [] \<and> cleanPath e w cl p d c =
     (let st1 = with_logged (w, securityManager cl) new;
          cl1 = cl\<lparr>securityManager := snd st1\<rparr>;
          sz = size' (getFolderSize w p); cnt = count' (getFolderSize w p)
      in if \<not> (map_of (roots w) p \<noteq> None \<and> \<not> fails w Access p \<and> \<not> fails w AccessRW p)
         then (SecurityValidationFailed, \<lparr>size' = 0, count' = 0\<rparr>, fst st1, cl1)
         else if sz = 0 then (Empty, \<lparr>size' = 0, count' = 0\<rparr>, fst st1, cl1)
         else (DryRun, \<lparr>size' = sz, count' = cnt\<rparr>, fst st1,
               cl1\<lparr>stats := add_stats (stats cl) sz cnt\<rparr>))"
proof -
  from validateOperation_result[of e w "securityManager cl" p "''delete''"] obtain new where
    ne: "new \<noteq> []" and
    v: "validateOperation e (w, securityManager cl) p ''delete'' =
       (map_of (roots w) p \<noteq> None \<and> \<not> fails w Access p \<and> \<not> fails w AccessRW p,
        with_logged (w, securityManager cl) new)" by blast
  show ?thesis
  proof (cases "map_of (roots w) p \<noteq> None \<and> \<not> fails w Access p \<and> \<not> fails w AccessRW p")
    case False
    with v ne show ?thesis
      by (intro exI[of _ new]) (simp add: cleanPath_def Let_def)
  next
    case True
    then have acc: "fs_access w p = Inr ()" by (auto simp: fs_access_def)
    with v ne True assms show ?thesis
      by (intro exI[of _ new]) (simp add: cleanPath_def Let_def logged_reads)
  qed
qed

text \<open>
  The ways through cleanPath when it deletes: the error handler is reached exactly when
  \<^verbatim>\<open>rimraf\<close> throws, whatever createBackup did before.
\<close>

lemma cleanPath_apply:
  assumes nd: "\<not> dryRun (opts cl)"
  shows "\<exists>new w' sm' am'. cleanPath e w cl p d c =
     (let st1 = with_logged (w, securityManager cl) new;
          cl1 = cl\<lparr>securityManager := snd st1\<rparr>;
          sz = size' (getFolderSize w p); cnt = count' (getFolderSize w p)
      in if \<not> (map_of (roots w) p \<noteq> None \<and> \<not> fails w Access p \<and> \<not> fails w AccessRW p)
         then (SecurityValidationFailed, \<lparr>size' = 0, count' = 0\<rparr>, fst st1, cl1)
         else if sz = 0 then (Empty, \<lparr>size' = 0, count' = 0\<rparr>, fst st1, cl1)
         else if fails w Rimraf p
           then (PartialCleanup, \<lparr>size' = 0, count' = 0\<rparr>, w',
                 cl\<lparr>securityManager := sm', analyticsManager := am'\<rparr>)
           else (Freed, \<lparr>size' = sz, count' = cnt\<rparr>, w',
                 cl\<lparr>stats := add_stats (stats cl) sz cnt, securityManager := sm',
                    analyticsManager := am'\<rparr>))"
proof -
  from validateOperation_result[of e w "securityManager cl" p "''delete''"] obtain new where
    v: "validateOperation e (w, securityManager cl) p ''delete'' =
       (map_of (roots w) p \<noteq> None \<and> \<not> fails w Access p \<and> \<not> fails w AccessRW p,
        with_logged (w, securityManager cl) new)" by blast
  let ?st1 = "with_logged (w, securityManager cl) new"
  show ?thesis
  proof (cases "map_of (roots w) p \<noteq> None \<and> \<not> fails w Access p \<and> \<not> fails w AccessRW p")
    case False
    with v show ?thesis
      by (intro exI[of _ new]) (simp add: cleanPath_def Let_def)
  next
    case True
    then have acc: "fs_access w p = Inr ()" by (auto simp: fs_access_def)
    show ?thesis
    proof (cases "size' (getFolderSize w p) = 0")
      case z: True
      with v True acc show ?thesis
        by (intro exI[of _ new]) (simp add: cleanPath_def Let_def logged_reads)
    next
      case nz: False
      obtain bid st2 where bk:
        "(if enableBackup (opts cl)
          then (let (bid, stb) = createBackup e ?st1 p ''delete''
                in (bid, sm_log INFO (''Backup created for deletion: '' @ d) stb))
          else (None, ?st1)) = (bid, st2)"
        by (metis surj_pair)
      have fw: "faults (fst st2) = faults w"
      proof (cases "enableBackup (opts cl)")
        case False
        with bk show ?thesis by (auto simp: logged_reads)
      next
        case True
        obtain b stb where cb: "createBackup e ?st1 p ''delete'' = (b, stb)"
          by (metis surj_pair)
        with createBackup_faults[of e ?st1 p "''delete''"]
        have "faults (fst stb) = faults w" by (simp add: logged_reads)
        with True bk cb show ?thesis by (auto simp: sm_log_faults)
      qed
      show ?thesis
      proof (cases "fails w Rimraf p")
        case f: True
        then have "rimraf (fst st2) p = Inl (FsError EACCES Rimraf p)"
          using fw by (simp add: rimraf_def fails_def)
        with v True acc nz nd bk f show ?thesis
          by (intro exI[of _ new]) (simp add: cleanPath_def Let_def logged_reads, blast)
      next
        case f: False
        then have "rimraf (fst st2) p = Inr ((fst st2)\<lparr>roots := AList.delete p (roots (fst st2))\<rparr>)"
          using fw by (simp add: rimraf_def fails_def)
        with v True acc nz nd bk f show ?thesis
          by (intro exI[of _ new]) (simp add: cleanPath_def Let_def logged_reads, blast)
      qed
    qed
  qed
qed

section \<open>Backup, restore and cleanup\<close>

text \<open>
  Claim C6. With backups disabled createBackup returns no identifier and changes nothing.
  With backups enabled it returns no identifier exactly when the stat of the target or the
  copy throws: for a file the copy, for a directory the recursive copy and then also the
  manifest written in its place. The operation log has then grown by the INFO entry of the
  attempt and by an ERROR entry "Failed to create backup: ..." that carries the message of
  the error, and the trees and the backup records are as before. No error leaves
  createBackup: cleanPath goes on after it, and its own error handler is reached only
  when \<^verbatim>\<open>rimraf\<close> throws.
\<close>

theorem createBackup_never_raises:
  "(\<not> sm_enableBackup sm \<longrightarrow> createBackup e (w, sm) p opn = (None, (w, sm))) \<and>
   (sm_enableBackup sm \<and> createBackup_copy e w sm p = Inl err \<longrightarrow>
      fst (createBackup e (w, sm) p opn) = None \<and>
      roots (fst (snd (createBackup e (w, sm) p opn))) = roots w \<and>
      backups (snd (snd (createBackup e (w, sm) p opn))) = backups sm \<and>
      operationLog (snd (snd (createBackup e (w, sm) p opn))) =
        operationLog sm @
        [\<lparr>level = INFO, message = ''Creating backup for '' @ opn\<rparr>,
         \<lparr>level = ERROR, message = ''Failed to create backup: '' @ error_message e err\<rparr>]) \<and>
   (createBackup_copy e w sm p = Inl err \<longleftrightarrow>
      (fs_stat w p = Inl err \<or>
       (\<exists>st. fs_stat w p = Inr st \<and> \<not> isDirectory st \<and>
             fs_copyFile w p (new_backupPath e sm) = Inl err) \<or>
       (\<exists>st err1. fs_stat w p = Inr st \<and> isDirectory st \<and>
             fs_cp w p (new_backupPath e sm) = Inl err1 \<and>
             createManifestBackup e w p (new_backupPath e sm) = Inl err))) \<and>
   (sm_enableBackup sm \<and> fst (createBackup e (w, sm) p opn) = None \<longrightarrow>
      (\<exists>err'. createBackup_copy e w sm p = Inl err' \<and>
              level (last (operationLog (snd (snd (createBackup e (w, sm) p opn))))) = ERROR)) \<and>
   (cp_spinner (cleanPath e w cl p d c) = PartialCleanup \<longrightarrow> fails w Rimraf p)"
proof (intro conjI impI)
  assume "\<not> sm_enableBackup sm"
  then show "createBackup e (w, sm) p opn = (None, (w, sm))" by (simp add: createBackup_def)
next
  assume h: "sm_enableBackup sm \<and> createBackup_copy e w sm p = Inl err"
  then have r: "createBackup e (w, sm) p opn =
           (None, with_logged (w, sm)
              [\<lparr>level = INFO, message = ''Creating backup for '' @ opn\<rparr>,
               \<lparr>level = ERROR, message = ''Failed to create backup: '' @ error_message e err\<rparr>])"
    using createBackup_failure by blast
  show "fst (createBackup e (w, sm) p opn) = None" by (simp add: r)
  show "roots (fst (snd (createBackup e (w, sm) p opn))) = roots w"
    by (simp add: r with_logged_fields)
  show "backups (snd (snd (createBackup e (w, sm) p opn))) = backups sm"
    by (simp add: r with_logged_fields)
  show "operationLog (snd (snd (createBackup e (w, sm) p opn))) =
        operationLog sm @
        [\<lparr>level = INFO, message = ''Creating backup for '' @ opn\<rparr>,
         \<lparr>level = ERROR, message = ''Failed to create backup: '' @ error_message e err\<rparr>]"
    by (simp add: r with_logged_fields)
next
  show "createBackup_copy e w sm p = Inl err \<longleftrightarrow>
      (fs_stat w p = Inl err \<or>
       (\<exists>st. fs_stat w p = Inr st \<and> \<not> isDirectory st \<and>
             fs_copyFile w p (new_backupPath e sm) = Inl err) \<or>
       (\<exists>st err1. fs_stat w p = Inr st \<and> isDirectory st \<and>
             fs_cp w p (new_backupPath e sm) = Inl err1 \<and>
             createManifestBackup e w p (new_backupPath e sm) = Inl err))"
    by (rule createBackup_copy_fails_iff)
next
  assume h: "sm_enableBackup sm \<and> fst (createBackup e (w, sm) p opn) = None"
  show "\<exists>err'. createBackup_copy e w sm p = Inl err' \<and>
              level (last (operationLog (snd (snd (createBackup e (w, sm) p opn))))) = ERROR"
  proof (cases "createBackup_copy e w sm p")
    case (Inl err')
    with h createBackup_failure[of sm e w p err' opn] show ?thesis
      by (simp add: with_logged_fields)
  next
    case (Inr w')
    with h createBackup_success[of sm e w p w' opn] show ?thesis by simp
  qed
next
  assume pc: "cp_spinner (cleanPath e w cl p d c) = PartialCleanup"
  show "fails w Rimraf p"
  proof (cases "dryRun (opts cl)")
    case True
    from cleanPath_dry[OF True, of e w p d c] pc show ?thesis
      by (auto simp: Let_def split: if_splits)
  next
    case False
    from cleanPath_apply[OF False, of e w p d c] pc show ?thesis
      by (auto simp: Let_def split: if_splits)
  qed
qed

theorem createBackup_never_raises_witness:
  "createBackup fixture_env (fixture_world, new_security_manager False) ''/tmp/fixture''
     ''delete'' = (None, (fixture_world, new_security_manager False)) \<and>
   fst (createBackup fixture_env (full_disk_world, new_security_manager True) ''/tmp/fixture''
          ''delete'') = None \<and>
   map level (operationLog (snd (snd (createBackup fixture_env
          (full_disk_world, new_security_manager True) ''/tmp/fixture'' ''delete'')))) =
     [INFO, ERROR] \<and>
   prefix ''Failed to create backup: Failed to create manifest backup: ''
     (message (last (operationLog (snd (snd (createBackup fixture_env
          (full_disk_world, new_security_manager True) ''/tmp/fixture'' ''delete'')))))) \<and>
   fst (createBackup fixture_env (single_file_world, new_security_manager True)
          ''/tmp/core.dump'' ''delete'') = None \<and>
   level (last (operationLog (snd (snd (createBackup fixture_env
          (single_file_world, new_security_manager True) ''/tmp/core.dump'' ''delete''))))) =
     ERROR \<and>
   cp_spinner (cleanPath fixture_env full_disk_world (new_cleaner False True)
                 ''/tmp/fixture'' ''Fixture'' ''user'') = Freed \<and>
   fails locked_world Rimraf ''/tmp/fixture''"
proof -
  have off: "\<not> sm_enableBackup (new_security_manager False)"
    by (simp add: new_security_manager_def)
  have bad: "sm_enableBackup (new_security_manager True) \<and>
             createBackup_copy fixture_env full_disk_world (new_security_manager True)
               ''/tmp/fixture'' =
             Inl (ManifestBackupFailed
                    (error_message fixture_env
                       (FsError EACCES WriteFile
                          ''/home/user/.ultra-cleaner-backups/1000-k3x9.backup'')))"
    by code_simp
  have onefile: "sm_enableBackup (new_security_manager True) \<and>
     fst (createBackup fixture_env (single_file_world, new_security_manager True)
            ''/tmp/core.dump'' ''delete'') = None"
    by code_simp
  have pc: "cp_spinner (cleanPath fixture_env locked_world (new_cleaner False True)
                          ''/tmp/fixture'' ''Fixture'' ''user'') = PartialCleanup"
    by code_simp
  have fr: "cp_spinner (cleanPath fixture_env full_disk_world (new_cleaner False True)
                          ''/tmp/fixture'' ''Fixture'' ''user'') = Freed"
    by code_simp
  have empty_log: "operationLog (new_security_manager True) = []"
    by (simp add: new_security_manager_def)
  from createBackup_never_raises[where sm = "new_security_manager False" and e = fixture_env
         and w = fixture_world and p = "''/tmp/fixture''" and opn = "''delete''"] off
  have 1: "createBackup fixture_env (fixture_world, new_security_manager False) ''/tmp/fixture''
             ''delete'' = (None, (fixture_world, new_security_manager False))"
    by blast
  from createBackup_never_raises[where sm = "new_security_manager True" and e = fixture_env
         and w = full_disk_world and p = "''/tmp/fixture''" and opn = "''delete''"] bad
  have 2: "fst (createBackup fixture_env (full_disk_world, new_security_manager True)
                  ''/tmp/fixture'' ''delete'') = None \<and>
           operationLog (snd (snd (createBackup fixture_env
              (full_disk_world, new_security_manager True) ''/tmp/fixture'' ''delete''))) =
           operationLog (new_security_manager True) @
           [\<lparr>level = INFO, message = ''Creating backup for '' @ ''delete''\<rparr>,
            \<lparr>level = ERROR, message = ''Failed to create backup: '' @
               error_message fixture_env (ManifestBackupFailed
                    (error_message fixture_env
                       (FsError EACCES WriteFile
                          ''/home/user/.ultra-cleaner-backups/1000-k3x9.backup'')))\<rparr>]"
    by blast
  from createBackup_never_raises[where sm = "new_security_manager True" and e = fixture_env
         and w = single_file_world and p = "''/tmp/core.dump''" and opn = "''delete''"] onefile
  have 3: "level (last (operationLog (snd (snd (createBackup fixture_env
          (single_file_world, new_security_manager True) ''/tmp/core.dump'' ''delete''))))) =
     ERROR"
    by blast
  from createBackup_never_raises[where e = fixture_env and w = locked_world
         and cl = "new_cleaner False True" and p = "''/tmp/fixture''" and d = "''Fixture''"
         and c = "''user''"] pc
  have 4: "fails locked_world Rimraf ''/tmp/fixture''" by blast
  from 1 2 3 4 fr onefile show ?thesis by (simp add: empty_log)
qed



text \<open>
  Claim C9. A target that exists and measures 0 bytes (a directory of empty files
  included) makes cleanPath return size 0 and count 0 with the trees, the backups, the
  counters and the analytics as they were; only the log entries of the validation, and
  their lines in the log file, are new. The spinner says "Empty", or "Security validation
  failed" when the access check throws.
\<close>

theorem cleanPath_empty_target:
  assumes ex: "map_of (roots w) p = Some n"
    and zero: "size' (getFolderSize w p) = 0"
  shows "\<exists>sp new. cleanPath e w cl p d c =
             (sp, \<lparr>size' = 0, count' = 0\<rparr>,
              w\<lparr>appended := appended w @ log_file_lines w (securityManager cl) new\<rparr>,
              cl\<lparr>securityManager :=
                   (securityManager cl)\<lparr>operationLog :=
                      operationLog (securityManager cl) @ new\<rparr>\<rparr>) \<and>
           (sp = Empty \<or> sp = SecurityValidationFailed) \<and>
           (\<not> fails w Access p \<and> \<not> fails w AccessRW p \<longrightarrow> sp = Empty)"
proof (cases "dryRun (opts cl)")
  case True
  from cleanPath_dry[OF True, of e w p d c] obtain new where
    "cleanPath e w cl p d c =
     (let st1 = with_logged (w, securityManager cl) new;
          cl1 = cl\<lparr>securityManager := snd st1\<rparr>;
          sz = size' (getFolderSize w p); cnt = count' (getFolderSize w p)
      in if \<not> (map_of (roots w) p \<noteq> None \<and> \<not> fails w Access p \<and> \<not> fails w AccessRW p)
         then (SecurityValidationFailed, \<lparr>size' = 0, count' = 0\<rparr>, fst st1, cl1)
         else if sz = 0 then (Empty, \<lparr>size' = 0, count' = 0\<rparr>, fst st1, cl1)
         else (DryRun, \<lparr>size' = sz, count' = cnt\<rparr>, fst st1,
               cl1\<lparr>stats := add_stats (stats cl) sz cnt\<rparr>))" by blast
  with ex zero show ?thesis
    by (intro exI[of _ "if \<not> fails w Access p \<and> \<not> fails w AccessRW p then Empty
                       else SecurityValidationFailed"] exI[of _ new])
       (simp add: Let_def with_logged_def)
next
  case False
  from cleanPath_apply[OF False, of e w p d c] obtain new w' sm' am' where
    "cleanPath e w cl p d c =
     (let st1 = with_logged (w, securityManager cl) new;
          cl1 = cl\<lparr>securityManager := snd st1\<rparr>;
          sz = size' (getFolderSize w p); cnt = count' (getFolderSize w p)
      in if \<not> (map_of (roots w) p \<noteq> None \<and> \<not> fails w Access p \<and> \<not> fails w AccessRW p)
         then (SecurityValidationFailed, \<lparr>size' = 0, count' = 0\<rparr>, fst st1, cl1)
         else if sz = 0 then (Empty, \<lparr>size' = 0, count' = 0\<rparr>, fst st1, cl1)
         else if fails w Rimraf p
           then (PartialCleanup, \<lparr>size' = 0, count' = 0\<rparr>, w',
                 cl\<lparr>securityManager := sm', analyticsManager := am'\<rparr>)
           else (Freed, \<lparr>size' = sz, count' = cnt\<rparr>, w',
                 cl\<lparr>stats := add_stats (stats cl) sz cnt, securityManager := sm',
                    analyticsManager := am'\<rparr>))" by blast
  with ex zero show ?thesis
    by (intro exI[of _ "if \<not> fails w Access p \<and> \<not> fails w AccessRW p then Empty
                       else SecurityValidationFailed"] exI[of _ new])
       (simp add: Let_def with_logged_def)
qed

theorem cleanPath_empty_target_witness:
  "getFolderSize zero_byte_world ''/tmp/cache'' = \<lparr>size' = 0, count' = 2\<rparr> \<and>
   cp_spinner (cleanPath fixture_env zero_byte_world (new_cleaner False True)
                 ''/tmp/cache'' ''Cache'' ''user'') = Empty \<and>
   cp_result (cleanPath fixture_env zero_byte_world (new_cleaner False True)
                ''/tmp/cache'' ''Cache'' ''user'') = \<lparr>size' = 0, count' = 0\<rparr> \<and>
   roots (cp_world (cleanPath fixture_env zero_byte_world (new_cleaner False True)
               ''/tmp/cache'' ''Cache'' ''user'')) = roots zero_byte_world \<and>
   stats (cp_cleaner (cleanPath fixture_env zero_byte_world (new_cleaner False True)
                        ''/tmp/cache'' ''Cache'' ''user'')) = stats (new_cleaner False True) \<and>
   analyticsManager (cp_cleaner (cleanPath fixture_env zero_byte_world (new_cleaner False True)
                        ''/tmp/cache'' ''Cache'' ''user'')) = new_analytics_manager \<and>
   backups (securityManager (cp_cleaner (cleanPath fixture_env zero_byte_world
              (new_cleaner False True) ''/tmp/cache'' ''Cache'' ''user''))) = []"
proof -
  have ex: "map_of (roots zero_byte_world) ''/tmp/cache'' =
              Some (Dir [(''a.lock'', File 0 Opaque), (''b.lock'', File 0 Opaque)])"
    by (simp add: zero_byte_world_def)
  have m: "getFolderSize zero_byte_world ''/tmp/cache'' = \<lparr>size' = 0, count' = 2\<rparr>"
    by (simp add: getFolderSize_def zero_byte_world_def fails_def path_join_def)
  then have zero: "size' (getFolderSize zero_byte_world ''/tmp/cache'') = 0" by simp
  have nf: "\<not> fails zero_byte_world Access ''/tmp/cache'' \<and>
            \<not> fails zero_byte_world AccessRW ''/tmp/cache''"
    by (simp add: fails_def zero_byte_world_def)
  have nb: "backups (securityManager (new_cleaner False True)) = []"
           "analyticsManager (new_cleaner False True) = new_analytics_manager"
    by (simp_all add: new_cleaner_def new_security_manager_def)
  from cleanPath_empty_target[OF ex zero, of fixture_env "new_cleaner False True"
         "''Cache''" "''user''"] nf nb m
  show ?thesis by auto
qed

text \<open>
  Claim C3, as stated, fails in two places. With logging enabled the preview appends the
  entry of the validation to the log file, so the file system is not as it was. And where
  the deletion of the non-preview run throws, that run adds nothing to the counters (its
  error handler returns before they are touched), while the preview adds 150 bytes, 3
  files and 1 area.
\<close>

theorem cleanPath_dry_run_counterexample:
  "map_of (roots locked_world) ''/tmp/fixture'' = Some fixture_dir \<and>
   getFolderSize locked_world ''/tmp/fixture'' = \<lparr>size' = 150, count' = 3\<rparr> \<and>
   appended locked_world = [] \<and>
   appended (cp_world (cleanPath fixture_env locked_world (new_cleaner True True)
                         ''/tmp/fixture'' ''Fixture'' ''user'')) =
     [(''/home/user/.ultra-cleaner.log'',
       \<lparr>level = INFO, message = ''Operation validated: delete''\<rparr>)] \<and>
   stats (cp_cleaner (cleanPath fixture_env locked_world (new_cleaner True True)
                        ''/tmp/fixture'' ''Fixture'' ''user'')) =
     \<lparr>totalCleaned = 150, totalFiles = 3, areasProcessed = 1\<rparr> \<and>
   stats (cp_cleaner (cleanPath fixture_env locked_world (new_cleaner False True)
                        ''/tmp/fixture'' ''Fixture'' ''user'')) =
     \<lparr>totalCleaned = 0, totalFiles = 0, areasProcessed = 0\<rparr>"
  by code_simp

text \<open>
  Claim C3, amended. In preview mode cleanPath deletes nothing and leaves the file system
  as it was except for the lines that its log entries append to the log file; with logging
  disabled the file system is exactly as it was. For a target that exists, passes
  validation and measures more than 0 bytes it adds the measured size, the measured count
  and 1 to totalCleaned, totalFiles and areasProcessed. Its result and its counters are
  those of the non-preview run on the same state, provided the deletion of that run does
  not throw.
\<close>

theorem cleanPath_dry_run_preview:
  assumes dry: "dryRun (opts cl)"
  shows "(\<exists>new. new \<noteq> [] \<and>
            cp_world (cleanPath e w cl p d c) =
              w\<lparr>appended := appended w @ log_file_lines w (securityManager cl) new\<rparr> \<and>
            securityManager (cp_cleaner (cleanPath e w cl p d c)) =
              (securityManager cl)\<lparr>operationLog := operationLog (securityManager cl) @ new\<rparr>) \<and>
         roots (cp_world (cleanPath e w cl p d c)) = roots w \<and>
         (\<not> sm_enableLogging (securityManager cl) \<longrightarrow> cp_world (cleanPath e w cl p d c) = w) \<and>
         (map_of (roots w) p \<noteq> None \<and> 0 < size' (getFolderSize w p) \<and>
          \<not> fails w Access p \<and> \<not> fails w AccessRW p \<longrightarrow>
            stats (cp_cleaner (cleanPath e w cl p d c)) =
              add_stats (stats cl) (size' (getFolderSize w p)) (count' (getFolderSize w p))) \<and>
         (cp_spinner (cleanPath e w (cl\<lparr>opts := (opts cl)\<lparr>dryRun := False\<rparr>\<rparr>) p d c)
            \<noteq> PartialCleanup \<longrightarrow>
            cp_result (cleanPath e w cl p d c) =
              cp_result (cleanPath e w (cl\<lparr>opts := (opts cl)\<lparr>dryRun := False\<rparr>\<rparr>) p d c) \<and>
            stats (cp_cleaner (cleanPath e w cl p d c)) =
              stats (cp_cleaner
                       (cleanPath e w (cl\<lparr>opts := (opts cl)\<lparr>dryRun := False\<rparr>\<rparr>) p d c)))"
proof -
  let ?cl = "cl\<lparr>opts := (opts cl)\<lparr>dryRun := False\<rparr>\<rparr>"
  have nd: "\<not> dryRun (opts ?cl)" by simp
  from cleanPath_apply[OF nd, of e w p d c] obtain new2 w' sm' am' where
    a: "cleanPath e w ?cl p d c =
     (let st1 = with_logged (w, securityManager ?cl) new2;
          cl1 = ?cl\<lparr>securityManager := snd st1\<rparr>;
          sz = size' (getFolderSize w p); cnt = count' (getFolderSize w p)
      in if \<not> (map_of (roots w) p \<noteq> None \<and> \<not> fails w Access p \<and> \<not> fails w AccessRW p)
         then (SecurityValidationFailed, \<lparr>size' = 0, count' = 0\<rparr>, fst st1, cl1)
         else if sz = 0 then (Empty, \<lparr>size' = 0, count' = 0\<rparr>, fst st1, cl1)
         else if fails w Rimraf p
           then (PartialCleanup, \<lparr>size' = 0, count' = 0\<rparr>, w',
                 ?cl\<lparr>securityManager := sm', analyticsManager := am'\<rparr>)
           else (Freed, \<lparr>size' = sz, count' = cnt\<rparr>, w',
                 ?cl\<lparr>stats := add_stats (stats ?cl) sz cnt, securityManager := sm',
                    analyticsManager := am'\<rparr>))" by blast
  from cleanPath_dry[OF dry, of e w p d c] obtain new where ne: "new \<noteq> []" and
    b: "cleanPath e w cl p d c =
     (let st1 = with_logged (w, securityManager cl) new;
          cl1 = cl\<lparr>securityManager := snd st1\<rparr>;
          sz = size' (getFolderSize w p); cnt = count' (getFolderSize w p)
      in if \<not> (map_of (roots w) p \<noteq> None \<and> \<not> fails w Access p \<and> \<not> fails w AccessRW p)
         then (SecurityValidationFailed, \<lparr>size' = 0, count' = 0\<rparr>, fst st1, cl1)
         else if sz = 0 then (Empty, \<lparr>size' = 0, count' = 0\<rparr>, fst st1, cl1)
         else (DryRun, \<lparr>size' = sz, count' = cnt\<rparr>, fst st1,
               cl1\<lparr>stats := add_stats (stats cl) sz cnt\<rparr>))" by blast
  have 1: "\<exists>new. new \<noteq> [] \<and>
            cp_world (cleanPath e w cl p d c) =
              w\<lparr>appended := appended w @ log_file_lines w (securityManager cl) new\<rparr> \<and>
            securityManager (cp_cleaner (cleanPath e w cl p d c)) =
              (securityManager cl)\<lparr>operationLog := operationLog (securityManager cl) @ new\<rparr>"
    using ne unfolding b by (intro exI[of _ new]) (simp add: Let_def with_logged_def)
  have 2: "roots (cp_world (cleanPath e w cl p d c)) = roots w"
    unfolding b by (simp add: Let_def with_logged_def)
  have 3: "\<not> sm_enableLogging (securityManager cl) \<longrightarrow> cp_world (cleanPath e w cl p d c) = w"
    unfolding b by (simp add: Let_def with_logged_def log_file_lines_def)
  have 4: "map_of (roots w) p \<noteq> None \<and> 0 < size' (getFolderSize w p) \<and>
          \<not> fails w Access p \<and> \<not> fails w AccessRW p \<longrightarrow>
            stats (cp_cleaner (cleanPath e w cl p d c)) =
              add_stats (stats cl) (size' (getFolderSize w p)) (count' (getFolderSize w p))"
    unfolding b by (simp add: Let_def)
  have 5: "cp_spinner (cleanPath e w ?cl p d c) \<noteq> PartialCleanup \<longrightarrow>
            cp_result (cleanPath e w cl p d c) = cp_result (cleanPath e w ?cl p d c) \<and>
            stats (cp_cleaner (cleanPath e w cl p d c)) =
              stats (cp_cleaner (cleanPath e w ?cl p d c))"
    unfolding a b by (simp add: Let_def)
  from 1 2 3 4 5 show ?thesis by blast
qed

theorem cleanPath_dry_run_preview_witness:
  "roots (cp_world (cleanPath fixture_env fixture_world (new_cleaner True True)
               ''/tmp/fixture'' ''Fixture'' ''user'')) = roots fixture_world \<and>
   stats (cp_cleaner (cleanPath fixture_env fixture_world (new_cleaner True True)
                        ''/tmp/fixture'' ''Fixture'' ''user'')) =
     \<lparr>totalCleaned = 150, totalFiles = 3, areasProcessed = 1\<rparr> \<and>
   stats (cp_cleaner (cleanPath fixture_env fixture_world (new_cleaner False True)
                        ''/tmp/fixture'' ''Fixture'' ''user'')) =
     \<lparr>totalCleaned = 150, totalFiles = 3, areasProcessed = 1\<rparr> \<and>
   cp_world (cleanPath fixture_env fixture_world
               ((new_cleaner True True)\<lparr>securityManager :=
                   (new_security_manager True)\<lparr>sm_enableLogging := False\<rparr>\<rparr>)
               ''/tmp/fixture'' ''Fixture'' ''user'') = fixture_world"
proof -
  have dry: "dryRun (opts (new_cleaner True True))" by (simp add: new_cleaner_def)
  have flip: "(new_cleaner True True)\<lparr>opts := (opts (new_cleaner True True))\<lparr>dryRun := False\<rparr>\<rparr>
                = new_cleaner False True"
    by (simp add: new_cleaner_def)
  have pre: "map_of (roots fixture_world) ''/tmp/fixture'' \<noteq> None \<and>
             0 < size' (getFolderSize fixture_world ''/tmp/fixture'') \<and>
             \<not> fails fixture_world Access ''/tmp/fixture'' \<and>
             \<not> fails fixture_world AccessRW ''/tmp/fixture''"
    by (simp add: getFolderSize_def fixture_world_def fixture_dir_def fails_def path_join_def)
  have m: "getFolderSize fixture_world ''/tmp/fixture'' = \<lparr>size' = 150, count' = 3\<rparr>"
    by (simp add: getFolderSize_def fixture_world_def fixture_dir_def fails_def path_join_def)
  have st: "stats (new_cleaner True True) =
              \<lparr>totalCleaned = 0, totalFiles = 0, areasProcessed = 0\<rparr>"
    by (simp add: new_cleaner_def)
  have ok: "cp_spinner (cleanPath fixture_env fixture_world (new_cleaner False True)
                          ''/tmp/fixture'' ''Fixture'' ''user'') \<noteq> PartialCleanup"
    by code_simp
  let ?quiet = "(new_cleaner True True)\<lparr>securityManager :=
                   (new_security_manager True)\<lparr>sm_enableLogging := False\<rparr>\<rparr>"
  have dryq: "dryRun (opts ?quiet)" by (simp add: new_cleaner_def)
  have nolog: "\<not> sm_enableLogging (securityManager ?quiet)" by simp
  from cleanPath_dry_run_preview[OF dryq, of fixture_env fixture_world "''/tmp/fixture''"
         "''Fixture''" "''user''"] nolog
  have q: "cp_world (cleanPath fixture_env fixture_world ?quiet
               ''/tmp/fixture'' ''Fixture'' ''user'') = fixture_world" by blast
  from cleanPath_dry_run_preview[OF dry, of fixture_env fixture_world "''/tmp/fixture''"
         "''Fixture''" "''user''"] pre ok q
  show ?thesis
    unfolding flip by (auto simp: m st add_stats_def)
qed

text \<open>
  Claim C1. cleanPath has no exclusion check, and nothing in the cleaner or the command
  line constructs a ConfigManager. With \<^verbatim>\<open>**/fixture\<close> as a global exclude pattern,
  shouldExcludePath answers true for \<^verbatim>\<open>/tmp/fixture\<close>, and cleanPath on that path
  still empties the directory and adds its 150 bytes and 3 files to the counters.
\<close>

theorem cleanPath_deletes_excluded_path:
  "shouldExcludePath (Some exclude_fixture_config) ''/tmp/fixture'' (Some ''user'') = Inr True \<and>
   cp_spinner (cleanPath fixture_env fixture_world (new_cleaner False True)
                 ''/tmp/fixture'' ''Fixture'' ''user'') = Freed \<and>
   cp_result (cleanPath fixture_env fixture_world (new_cleaner False True)
                ''/tmp/fixture'' ''Fixture'' ''user'') = \<lparr>size' = 150, count' = 3\<rparr> \<and>
   map_of (roots (cp_world (cleanPath fixture_env fixture_world (new_cleaner False True)
                              ''/tmp/fixture'' ''Fixture'' ''user''))) ''/tmp/fixture'' =
     Some (Dir []) \<and>
   stats (cp_cleaner (cleanPath fixture_env fixture_world (new_cleaner False True)
                        ''/tmp/fixture'' ''Fixture'' ''user'')) =
     \<lparr>totalCleaned = 150, totalFiles = 3, areasProcessed = 1\<rparr>"
  by code_simp

end
